theory Spec2Isabelle
  imports Main
begin

section \<open>GPTQ Marlin quantization layout (gptq\_marlin.py)\<close>

text \<open>
  A shallow embedding of \<^verbatim>\<open>vllm/model_executor/layers/quantization/gptq_marlin.py\<close>:
  the quantization config and its constructor, the shape and sharding decisions of the dense
  and the mixture-of-experts \<^verbatim>\<open>create_weights\<close>, the mixture-of-experts
  \<^verbatim>\<open>process_weights_after_loading\<close> and \<^verbatim>\<open>apply\<close>, and the
  per-layer method resolution. Python integers are \<open>int\<close>; \<^verbatim>\<open>//\<close> is floor
  division, which is \<open>div\<close> on \<open>int\<close>, and raises on a zero divisor. Every
  \<^verbatim>\<open>raise\<close> is an \<open>Inl\<close> result.
\<close>

subsection \<open>Errors\<close>

datatype error =
    ValueError
  | ZeroDivisionError
  | KeyError
  | IndexError
  | RuntimeError
  | NotImplementedError
  | AssertionError

text \<open>Sequencing of steps that can raise: the first error ends the computation.\<close>

definition bind_err :: "error + 'a \<Rightarrow> ('a \<Rightarrow> error + 'b) \<Rightarrow> error + 'b" where
  "bind_err r f = (case r of Inl e \<Rightarrow> Inl e | Inr v \<Rightarrow> f v)"

text \<open>Python's \<^verbatim>\<open>a // b\<close>.\<close>

definition floordiv :: "int \<Rightarrow> int \<Rightarrow> error + int" where
  "floordiv a b = (if b = 0 then Inl ZeroDivisionError else Inr (a div b))"

subsection \<open>Scalar types\<close>

text \<open>
  Modelled from the spec: \<^verbatim>\<open>vllm.scalar_type\<close> is not among the sources. A scalar
  type is known here by its bit width and its bias, which the two names that
  \<^verbatim>\<open>TYPE_MAP\<close> uses spell out: \<^verbatim>\<open>uint4b8\<close> is the unsigned 4-bit encoding
  with bias 8, \<^verbatim>\<open>uint8b128\<close> the unsigned 8-bit encoding with bias 128 (the spec:
  a known packed integer encoding per supported bit width, only 4 and 8 bits supported).
\<close>

datatype scalar_type = ScalarType (size_bits: int) (bias: int)

definition uint4b8 :: scalar_type where
  "uint4b8 = ScalarType 4 8"

definition uint8b128 :: scalar_type where
  "uint8b128 = ScalarType 8 128"

subsection \<open>GPTQMarlinConfig\<close>

text \<open>
  A value of the \<^verbatim>\<open>dynamic\<close> and \<^verbatim>\<open>full_config\<close> dictionaries is an
  integer or a boolean. A dictionary keeps its insertion order, so it is an association list.
\<close>

datatype dyn_value = IntV int | BoolV bool

type_synonym dyn_fields = "(string \<times> dyn_value) list"

record GPTQMarlinConfig =
  dynamic :: "(string \<times> dyn_fields) list"
  weight_bits :: int
  is_sym :: bool
  pack_factor :: int
  group_size :: int
  desc_act :: bool
  lm_head_quantized :: bool
  full_config :: dyn_fields
  quant_type :: scalar_type

text \<open>\<^verbatim>\<open>TYPE_MAP\<close>: (num\_bits, is\_sym) to quant\_type.\<close>

definition TYPE_MAP :: "int \<times> bool \<rightharpoonup> scalar_type" where
  "TYPE_MAP = [(4, True) \<mapsto> uint4b8, (8, True) \<mapsto> uint8b128]"

text \<open>
  \<^verbatim>\<open>GPTQMarlinConfig.__init__\<close>. The statements run in the source's order: the
  activation-order flag is cleared for channel-wise quantization, the pack factor is
  computed (a zero bit width raises there), and only then is the pair looked up in
  \<^verbatim>\<open>TYPE_MAP\<close>.
\<close>

definition GPTQMarlinConfig_init ::
  "int \<Rightarrow> int \<Rightarrow> bool \<Rightarrow> bool \<Rightarrow> bool \<Rightarrow> (string \<times> dyn_fields) list \<Rightarrow> dyn_fields
    \<Rightarrow> error + GPTQMarlinConfig" where
  "GPTQMarlinConfig_init bits gsize act symm lm_head dyn full =
     (let act' = (if act \<and> gsize = - 1 then False else act) in
      bind_err (floordiv 32 bits) (\<lambda>pf.
        case TYPE_MAP (bits, symm) of
          None \<Rightarrow> Inl ValueError
        | Some qt \<Rightarrow>
            Inr \<lparr>dynamic = dyn, weight_bits = bits, is_sym = symm, pack_factor = pf,
                 group_size = gsize, desc_act = act', lm_head_quantized = lm_head,
                 full_config = full, quant_type = qt\<rparr>))"

subsection \<open>GPTQMarlinMoEMethod: construction\<close>

text \<open>
  \<^verbatim>\<open>GPTQMarlinMoEMethod.__init__\<close>: the method object keeps a reference to its
  config and the quant type it selected from the config's bit width.
\<close>

record GPTQMarlinMoEMethod =
  quant_config :: GPTQMarlinConfig
  method_quant_type :: scalar_type

definition GPTQMarlinMoEMethod_init :: "GPTQMarlinConfig \<Rightarrow> error + GPTQMarlinMoEMethod" where
  "GPTQMarlinMoEMethod_init cfg =
     (if size_bits (quant_type cfg) = 4 then
        Inr \<lparr>quant_config = cfg, method_quant_type = uint4b8\<rparr>
      else if size_bits (quant_type cfg) = 8 then
        Inr \<lparr>quant_config = cfg, method_quant_type = uint8b128\<rparr>
      else Inl ValueError)"

subsection \<open>Allocation\<close>

text \<open>
  \<^verbatim>\<open>torch.empty(d0, d1, ...)\<close> allocates a tensor of the given shape and leaves its
  contents unspecified, so an allocated tensor is its shape; a negative dimension raises.
\<close>

definition torch_empty :: "int list \<Rightarrow> error + int list" where
  "torch_empty dims = (if list_ex (\<lambda>d. d < 0) dims then Inl RuntimeError else Inr dims)"

datatype dtype = torch_half | torch_bfloat16 | torch_float32 | torch_int32

text \<open>
  The parameter classes of \<^verbatim>\<open>vllm.model_executor.parameter\<close>, each with the shape of
  its data and the keyword arguments the source passes (the weight loader, an opaque
  callback, is left out).
\<close>

datatype vllm_parameter =
    PackedvLLMParameter (param_shape: "int list") (param_dtype: dtype)
      (input_dim: nat) (output_dim: nat) (packed_dim: nat) (packed_factor: int)
  | RowvLLMParameter (param_shape: "int list") (param_dtype: dtype) (input_dim: nat)
  | ChannelQuantScaleParameter (param_shape: "int list") (param_dtype: dtype)
      (output_dim: nat)
  | GroupQuantScaleParameter (param_shape: "int list") (param_dtype: dtype)
      (output_dim: nat) (input_dim: nat)
  | PackedColumnParameter (param_shape: "int list") (param_dtype: dtype)
      (output_dim: nat) (packed_dim: nat) (packed_factor: int)

record MPLinearLayerConfig =
  full_weight_shape :: "int \<times> int"
  partition_weight_shape :: "int \<times> int"
  weight_type :: scalar_type
  act_type :: dtype
  mp_group_size :: int
  zero_points :: bool
  has_g_idx :: bool

subsection \<open>GPTQMarlinLinearMethod.create\_weights\<close>

text \<open>
  Lines 270 to 288 of the source, the block under the comments ``Normalize group\_size'' and
  ``Determine sharding'': the result is the pair of the locals
  \<^verbatim>\<open>scales_and_zp_input_dim\<close> (\<open>None\<close>: the weight loader repeats the scales on
  every rank; \<open>Some 0\<close>: it shards them along dimension 0) and
  \<^verbatim>\<open>scales_and_zp_size\<close>. The helper \<^verbatim>\<open>marlin_repeat_scales_on_all_ranks\<close>
  is imported from \<^verbatim>\<open>marlin_utils\<close>, which is not among the sources: it is the
  parameter \<open>repeat_scales\<close>, called with the activation-order flag, the configured group
  size and the row-parallel flag.
\<close>

definition scales_and_zp_sharding ::
  "(bool \<Rightarrow> int \<Rightarrow> bool \<Rightarrow> bool) \<Rightarrow> GPTQMarlinConfig \<Rightarrow> int \<Rightarrow> int \<Rightarrow> bool
    \<Rightarrow> error + (nat option \<times> int)" where
  "scales_and_zp_sharding repeat_scales cfg input_size input_size_per_partition
       is_row_parallel =
     (let gsize = (if group_size cfg \<noteq> - 1 then group_size cfg else input_size) in
      if repeat_scales (desc_act cfg) (group_size cfg) is_row_parallel then
        bind_err (floordiv input_size gsize) (\<lambda>n. Inr (None, n))
      else
        bind_err (floordiv input_size_per_partition gsize) (\<lambda>n. Inr (Some 0, n)))"

record linear_layer =
  qweight :: vllm_parameter
  g_idx :: vllm_parameter
  scales :: vllm_parameter
  qzeros :: vllm_parameter
  kernel_config :: MPLinearLayerConfig
  kernel_type :: string

text \<open>
  \<^verbatim>\<open>GPTQMarlinLinearMethod.create_weights\<close>. The kernel chooser
  \<^verbatim>\<open>choose_mp_linear_kernel\<close> is external and can raise: it is the parameter
  \<open>choose_kernel\<close>, which returns the kernel's name. The allocations run in the source's
  order, so the first one that raises decides the error.
\<close>

definition create_weights ::
  "(MPLinearLayerConfig \<Rightarrow> error + string) \<Rightarrow> (bool \<Rightarrow> int \<Rightarrow> bool \<Rightarrow> bool)
    \<Rightarrow> GPTQMarlinConfig \<Rightarrow> int \<Rightarrow> int list \<Rightarrow> int \<Rightarrow> int \<Rightarrow> dtype
    \<Rightarrow> error + linear_layer" where
  "create_weights choose_kernel repeat_scales cfg input_size_per_partition
       output_partition_sizes input_size output_size params_dtype =
     (let output_size_per_partition = sum_list output_partition_sizes;
          is_row_parallel = (input_size \<noteq> input_size_per_partition);
          mp_linear_kernel_config =
            \<lparr>full_weight_shape = (input_size, output_size),
             partition_weight_shape = (input_size_per_partition, output_size_per_partition),
             weight_type = quant_type cfg,
             act_type = params_dtype,
             mp_group_size = group_size cfg,
             zero_points = False,
             has_g_idx = desc_act cfg\<rparr>
      in
      bind_err (choose_kernel mp_linear_kernel_config) (\<lambda>kernel.
      bind_err (scales_and_zp_sharding repeat_scales cfg input_size input_size_per_partition
                  is_row_parallel) (\<lambda>(scales_and_zp_input_dim, scales_and_zp_size).
      bind_err (floordiv input_size_per_partition (pack_factor cfg)) (\<lambda>qweight_rows.
      bind_err (torch_empty [qweight_rows, output_size_per_partition]) (\<lambda>qweight_data.
      bind_err (torch_empty [input_size_per_partition]) (\<lambda>g_idx_data.
      bind_err (floordiv output_size_per_partition (pack_factor cfg)) (\<lambda>qzeros_cols.
      bind_err (torch_empty [scales_and_zp_size, qzeros_cols]) (\<lambda>qzeros_data.
      bind_err (torch_empty [scales_and_zp_size, output_size_per_partition]) (\<lambda>scales_data.
        Inr \<lparr>qweight = PackedvLLMParameter qweight_data torch_int32 0 1 0 (pack_factor cfg),
             g_idx = RowvLLMParameter g_idx_data torch_int32 0,
             scales =
               (case scales_and_zp_input_dim of
                  None \<Rightarrow> ChannelQuantScaleParameter scales_data params_dtype 1
                | Some d \<Rightarrow> GroupQuantScaleParameter scales_data params_dtype 1 0),
             qzeros =
               (case scales_and_zp_input_dim of
                  None \<Rightarrow> PackedColumnParameter qzeros_data torch_int32 1 1 (pack_factor cfg)
                | Some d \<Rightarrow>
                    PackedvLLMParameter qzeros_data torch_int32 0 1 1 (pack_factor cfg)),
             kernel_config = mp_linear_kernel_config,
             kernel_type = kernel\<rparr>)))))))))"

text \<open>
  Modelled from the spec: \<^verbatim>\<open>marlin_repeat_scales_on_all_ranks\<close> of
  \<^verbatim>\<open>marlin_utils\<close>, which is not among the sources. The spec's rule (section 4.3):
  scales are replicated across the tensor-parallel ranks when either activation-order is
  disabled or the partition is not row-parallel, and sharded exactly when activation-order
  is enabled and the partition is row-parallel. The group size is an argument of the call
  and the spec's rule does not read it.
\<close>

definition marlin_repeat_scales_on_all_ranks :: "bool \<Rightarrow> int \<Rightarrow> bool \<Rightarrow> bool" where
  "marlin_repeat_scales_on_all_ranks act_order gsize is_row_parallel =
     (\<not> act_order \<or> \<not> is_row_parallel)"

subsection \<open>GPTQMarlinMoEMethod.create\_weights\<close>

text \<open>\<^verbatim>\<open>FusedMoeWeightScaleSupported\<close>: the two strategies the source selects.\<close>

datatype FusedMoeWeightScaleSupported = GROUP | CHANNEL

text \<open>
  A registered expert parameter: the shape of its data, its dtype, and the weight attributes
  set on it (\<^verbatim>\<open>quant_method\<close>, \<^verbatim>\<open>is_transposed\<close>, and
  \<^verbatim>\<open>load_full_w2\<close> where the source sets it).
\<close>

datatype moe_parameter =
  MoEParameter (moe_shape: "int list") (moe_dtype: dtype)
    (quant_method: FusedMoeWeightScaleSupported) (is_transposed: bool)
    (load_full_w2: "bool option")

record moe_layer_params =
  w13_qweight_param :: moe_parameter
  w2_qweight_param :: moe_parameter
  w13_scales_param :: moe_parameter
  w2_scales_param :: moe_parameter
  w13_qzeros_param :: moe_parameter
  w2_qzeros_param :: moe_parameter
  w13_g_idx_param :: moe_parameter
  w2_g_idx_param :: moe_parameter
  w13_g_idx_sort_indices_param :: moe_parameter
  w2_g_idx_sort_indices_param :: moe_parameter
  is_k_full :: bool

text \<open>
  Lines 403 to 413: the scale row counts and the strategy. With a group size, the
  down-projection (\<^verbatim>\<open>w2\<close>) scales are sized on the full intermediate size when
  activation-order is enabled and on the partition's intermediate size otherwise.
\<close>

definition moe_scales_sizes ::
  "GPTQMarlinConfig \<Rightarrow> int \<Rightarrow> int \<Rightarrow> int
    \<Rightarrow> error + (int \<times> int \<times> FusedMoeWeightScaleSupported)" where
  "moe_scales_sizes cfg hidden_size intermediate_size_per_partition intermediate_size_full =
     (if group_size cfg \<noteq> - 1 then
        bind_err (floordiv hidden_size (group_size cfg)) (\<lambda>scales_size13.
          let w2_scales_size =
                (if desc_act cfg then intermediate_size_full
                 else intermediate_size_per_partition) in
          bind_err (floordiv w2_scales_size (group_size cfg)) (\<lambda>scales_size2.
            Inr (scales_size13, scales_size2, GROUP)))
      else Inr (1, 1, CHANNEL))"

text \<open>
  \<^verbatim>\<open>GPTQMarlinMoEMethod.create_weights\<close>. \<^verbatim>\<open>intermediate_size_full\<close> is
  popped from the extra weight attributes: \<open>None\<close> is the absent key. The workspace
  buffer made by \<^verbatim>\<open>marlin_make_workspace_new\<close> is external and left out.
\<close>

definition moe_create_weights ::
  "GPTQMarlinConfig \<Rightarrow> int \<Rightarrow> int \<Rightarrow> int \<Rightarrow> dtype \<Rightarrow> int option
    \<Rightarrow> error + moe_layer_params" where
  "moe_create_weights cfg num_experts hidden_size intermediate_size_per_partition
       params_dtype intermediate_size_full_attr =
     (case intermediate_size_full_attr of
        None \<Rightarrow> Inl KeyError
      | Some intermediate_size_full \<Rightarrow>
      bind_err (moe_scales_sizes cfg hidden_size intermediate_size_per_partition
                  intermediate_size_full) (\<lambda>(scales_size13, scales_size2, strategy).
      let mk = (\<lambda>shp dt full. MoEParameter shp dt strategy True full) in
      bind_err (floordiv hidden_size (pack_factor cfg)) (\<lambda>w13_rows.
      bind_err (torch_empty [num_experts, w13_rows, 2 * intermediate_size_per_partition])
        (\<lambda>w13_qweight.
      bind_err (floordiv intermediate_size_per_partition (pack_factor cfg)) (\<lambda>w2_rows.
      bind_err (torch_empty [num_experts, w2_rows, hidden_size]) (\<lambda>w2_qweight.
      bind_err (torch_empty [num_experts, scales_size13,
                  2 * intermediate_size_per_partition]) (\<lambda>w13_scales.
      bind_err (torch_empty [num_experts, scales_size2, hidden_size]) (\<lambda>w2_scales.
      bind_err (floordiv (2 * intermediate_size_per_partition) (pack_factor cfg))
        (\<lambda>w13_zcols.
      bind_err (torch_empty [num_experts, scales_size13, w13_zcols]) (\<lambda>w13_qzeros.
      bind_err (floordiv hidden_size (pack_factor cfg)) (\<lambda>w2_zcols.
      bind_err (torch_empty [num_experts, scales_size2, w2_zcols]) (\<lambda>w2_qzeros.
      bind_err (torch_empty [num_experts, hidden_size]) (\<lambda>w13_g_idx.
      bind_err (torch_empty [num_experts, intermediate_size_per_partition]) (\<lambda>w2_g_idx.
      bind_err (torch_empty [num_experts, hidden_size]) (\<lambda>w13_sort.
      bind_err (torch_empty [num_experts, intermediate_size_per_partition]) (\<lambda>w2_sort.
        Inr \<lparr>w13_qweight_param = mk w13_qweight torch_int32 None,
             w2_qweight_param = mk w2_qweight torch_int32 None,
             w13_scales_param = mk w13_scales params_dtype None,
             w2_scales_param = mk w2_scales params_dtype (Some (desc_act cfg)),
             w13_qzeros_param = mk w13_qzeros params_dtype None,
             w2_qzeros_param = mk w2_qzeros params_dtype (Some (desc_act cfg)),
             w13_g_idx_param = mk w13_g_idx torch_int32 None,
             w2_g_idx_param = mk w2_g_idx torch_int32 None,
             w13_g_idx_sort_indices_param = mk w13_sort torch_int32 None,
             w2_g_idx_sort_indices_param = mk w2_sort torch_int32 None,
             is_k_full =
               (\<not> desc_act cfg \<or>
                intermediate_size_per_partition = intermediate_size_full)\<rparr>))))))))))))))))"

subsection \<open>Loaded expert tensors and the external operations\<close>

text \<open>
  A loaded weight or scale tensor is its shape and its contents; the contents are never read
  by this file, only handed to the external repacking operations, so they are a type
  parameter. The activation-order index tensors are read: they are lists of rows, one row
  per expert.
\<close>

record 'd tensor =
  tensor_shape :: "int list"
  tensor_data :: 'd

record 'd moe_layer =
  w13_qweight :: "'d tensor"
  w2_qweight :: "'d tensor"
  w13_scales :: "'d tensor"
  w2_scales :: "'d tensor"
  w13_g_idx :: "int list list"
  w2_g_idx :: "int list list"
  w13_g_idx_sort_indices :: "int list list"
  w2_g_idx_sort_indices :: "int list list"
  intermediate_size_per_partition :: int

text \<open>
  The operations of torch and of the kernel library that
  \<^verbatim>\<open>process_weights_after_loading\<close> calls; none of them is among the sources, so
  they are parameters:
  \<^item> \<open>argsort\<close> is \<^verbatim>\<open>torch.argsort\<close> on one row, called without
    \<^verbatim>\<open>stable=True\<close>;
  \<^item> \<open>uninit b e j\<close> is what memory holds at row \<open>e\<close>, column \<open>j\<close> of the
    \<open>b\<close>-th buffer that \<^verbatim>\<open>torch.empty_like\<close> returns;
  \<^item> \<open>gptq_marlin_moe_repack\<close> and \<open>marlin_moe_permute_scales\<close> are the repacking
    operations, which can raise.
\<close>

record 'd moe_ops =
  argsort :: "int list \<Rightarrow> nat list"
  uninit :: "nat \<Rightarrow> nat \<Rightarrow> nat \<Rightarrow> int"
  gptq_marlin_moe_repack ::
    "'d tensor \<Rightarrow> int list list \<Rightarrow> int \<Rightarrow> int \<Rightarrow> int \<Rightarrow> error + 'd tensor"
  marlin_moe_permute_scales :: "'d tensor \<Rightarrow> int \<Rightarrow> int \<Rightarrow> int \<Rightarrow> error + 'd tensor"

text \<open>
  What \<^verbatim>\<open>torch.argsort\<close> promises for a row in its default mode: a permutation of
  the row's positions that puts the row in ascending order. The order among equal elements
  is promised only with \<^verbatim>\<open>stable=True\<close>.
\<close>

definition is_argsort :: "int list \<Rightarrow> nat list \<Rightarrow> bool" where
  "is_argsort row p = (sort p = [0..<length row] \<and> sorted (map (\<lambda>i. row ! i) p))"

text \<open>The stable sorting permutation: positions ordered by their element, ties by position.\<close>

definition stable_argsort :: "int list \<Rightarrow> nat list" where
  "stable_argsort row = sort_key (\<lambda>i. row ! i) [0..<length row]"

text \<open>
  A sorting permutation that orders ties by descending position: another result that
  \<^verbatim>\<open>torch.argsort\<close> may return in its default mode.
\<close>

definition argsort_ties_descending :: "int list \<Rightarrow> nat list" where
  "argsort_ties_descending row = rev (sort_key (\<lambda>i. - (row ! i)) [0..<length row])"

text \<open>The inverse of a permutation of positions: where each position occurs in it.\<close>

fun position_of :: "nat \<Rightarrow> nat list \<Rightarrow> nat" where
  "position_of j [] = 0"
| "position_of j (i # p) = (if i = j then 0 else Suc (position_of j p))"

definition inverse_permutation :: "nat list \<Rightarrow> nat list" where
  "inverse_permutation p = map (\<lambda>j. position_of j p) [0..<length p]"

subsection \<open>Tensor indexing\<close>

text \<open>\<^verbatim>\<open>t[e]\<close> on a tensor of rows, for \<open>e\<close> from \<^verbatim>\<open>range\<close>.\<close>

definition get_row :: "int list list \<Rightarrow> nat \<Rightarrow> error + int list" where
  "get_row t e = (if e < length t then Inr (t ! e) else Inl IndexError)"

text \<open>
  \<^verbatim>\<open>row[idx]\<close> with an index tensor: each index selects an element, a negative index
  counts from the end, and an index out of range raises.
\<close>

definition tensor_index :: "int list \<Rightarrow> int list \<Rightarrow> error + int list" where
  "tensor_index row idx =
     (let n = int (length row) in
      if list_all (\<lambda>i. - n \<le> i \<and> i < n) idx then
        Inr (map (\<lambda>i. row ! nat (if i < 0 then i + n else i)) idx)
      else Inl IndexError)"

text \<open>
  \<^verbatim>\<open>buf[e] = v\<close>: the row is overwritten when the lengths agree, a one-element
  \<open>v\<close> is broadcast over the row, and any other length raises.
\<close>

definition set_row :: "int list list \<Rightarrow> nat \<Rightarrow> int list \<Rightarrow> error + int list list" where
  "set_row buf e v =
     (if e < length buf then
        (if length v = length (buf ! e) then Inr (buf[e := v])
         else if length v = 1 then Inr (buf[e := replicate (length (buf ! e)) (hd v)])
         else Inl RuntimeError)
      else Inl IndexError)"

text \<open>\<^verbatim>\<open>torch.empty_like(t)\<close>: the shape of \<open>t\<close>, contents as memory holds them.\<close>

definition torch_empty_like :: "(nat \<Rightarrow> nat \<Rightarrow> int) \<Rightarrow> int list list \<Rightarrow> int list list" where
  "torch_empty_like u t = map (\<lambda>e. map (\<lambda>j. u e j) [0..<length (t ! e)]) [0..<length t]"

text \<open>\<^verbatim>\<open>t.shape[i]\<close>.\<close>

definition shape_at :: "'d tensor \<Rightarrow> nat \<Rightarrow> error + int" where
  "shape_at t i =
     (if i < length (tensor_shape t) then Inr (tensor_shape t ! i) else Inl IndexError)"

subsection \<open>GPTQMarlinMoEMethod.process\_weights\_after\_loading\<close>

text \<open>
  One iteration of the loop over the experts (lines 548 to 555). The four buffers are the
  sort indices of \<^verbatim>\<open>w13\<close> and \<^verbatim>\<open>w2\<close> and the sorted index rows of
  \<^verbatim>\<open>w13\<close> and \<^verbatim>\<open>w2\<close>. The indices that \<^verbatim>\<open>argsort\<close> returns are
  cast to 32 bits; a row is shorter than \<open>2 ^ 31\<close>, so the cast keeps them.
\<close>

type_synonym act_order_buffers =
  "int list list \<times> int list list \<times> int list list \<times> int list list"

definition act_order_step ::
  "(int list \<Rightarrow> nat list) \<Rightarrow> int list list \<Rightarrow> int list list \<Rightarrow> nat \<Rightarrow> act_order_buffers
    \<Rightarrow> error + act_order_buffers" where
  "act_order_step srt g13 g2 e bufs =
     (case bufs of (si13, si2, sg13, sg2) \<Rightarrow>
      bind_err (get_row g13 e) (\<lambda>row13.
      bind_err (set_row si13 e (map int (srt row13))) (\<lambda>si13'.
      bind_err (get_row g2 e) (\<lambda>row2.
      bind_err (set_row si2 e (map int (srt row2))) (\<lambda>si2'.
      bind_err (get_row si13' e) (\<lambda>idx13.
      bind_err (tensor_index row13 idx13) (\<lambda>sorted13.
      bind_err (set_row sg13 e sorted13) (\<lambda>sg13'.
      bind_err (get_row si2' e) (\<lambda>idx2.
      bind_err (tensor_index row2 idx2) (\<lambda>sorted2.
      bind_err (set_row sg2 e sorted2) (\<lambda>sg2'.
        Inr (si13', si2', sg13', sg2'))))))))))))"

fun act_order_loop ::
  "(int list \<Rightarrow> nat list) \<Rightarrow> int list list \<Rightarrow> int list list \<Rightarrow> nat list \<Rightarrow> act_order_buffers
    \<Rightarrow> error + act_order_buffers" where
  "act_order_loop srt g13 g2 [] bufs = Inr bufs"
| "act_order_loop srt g13 g2 (e # es) bufs =
     bind_err (act_order_step srt g13 g2 e bufs) (act_order_loop srt g13 g2 es)"

text \<open>
  Lines 539 to 585, under the comment ``Process act\_order'': with activation-order the
  index rows are sorted per expert and the four tensors replaced; without it the four
  tensors are replaced by tensors of shape \<^verbatim>\<open>(num_experts, 0)\<close>.
  \<^verbatim>\<open>replace_parameter\<close> is a field update.
\<close>

definition process_act_order ::
  "'d moe_ops \<Rightarrow> GPTQMarlinConfig \<Rightarrow> 'd moe_layer \<Rightarrow> error + 'd moe_layer" where
  "process_act_order ops cfg layer =
     (if desc_act cfg then
        (let num_experts = length (w13_g_idx layer);
             si13 = torch_empty_like (uninit ops 0) (w13_g_idx layer);
             si2 = torch_empty_like (uninit ops 1) (w2_g_idx layer);
             sg13 = torch_empty_like (uninit ops 2) (w13_g_idx layer);
             sg2 = torch_empty_like (uninit ops 3) (w2_g_idx layer)
         in
         bind_err (act_order_loop (argsort ops) (w13_g_idx layer) (w2_g_idx layer)
                     [0..<num_experts] (si13, si2, sg13, sg2))
           (\<lambda>(si13', si2', sg13', sg2').
              Inr (layer\<lparr>w13_g_idx := sg13', w2_g_idx := sg2',
                         w13_g_idx_sort_indices := si13',
                         w2_g_idx_sort_indices := si2'\<rparr>)))
      else
        (let num_experts = length (w13_g_idx layer) in
         Inr (layer\<lparr>w13_g_idx := replicate num_experts [],
                    w2_g_idx := replicate num_experts [],
                    w13_g_idx_sort_indices := replicate num_experts [],
                    w2_g_idx_sort_indices := replicate num_experts []\<rparr>)))"

text \<open>
  The \<^verbatim>\<open>size_k\<close> argument of the scale permutation of the down-projection scales
  (lines 613 to 615).
\<close>

definition w2_scales_size_k :: "GPTQMarlinConfig \<Rightarrow> int \<Rightarrow> int" where
  "w2_scales_size_k cfg scale_rows =
     scale_rows * (if group_size cfg \<noteq> - 1 then group_size cfg else pack_factor cfg)"

text \<open>
  \<^verbatim>\<open>GPTQMarlinMoEMethod.process_weights_after_loading\<close>: the activation-order
  step, then the two weight repacks and the two scale permutations, each result replacing
  its tensor. The function reads no flag of the layer that says whether it has run before.
\<close>

definition process_weights_after_loading ::
  "'d moe_ops \<Rightarrow> GPTQMarlinConfig \<Rightarrow> 'd moe_layer \<Rightarrow> error + 'd moe_layer" where
  "process_weights_after_loading ops cfg layer =
     bind_err (process_act_order ops cfg layer) (\<lambda>l1.
     bind_err (shape_at (w13_qweight l1) 1) (\<lambda>k13.
     bind_err (shape_at (w13_qweight l1) 2) (\<lambda>n13.
     bind_err (gptq_marlin_moe_repack ops (w13_qweight l1) (w13_g_idx_sort_indices l1)
                 (k13 * pack_factor cfg) n13 (size_bits (quant_type cfg))) (\<lambda>marlin_w13_qweight.
     let l2 = l1\<lparr>w13_qweight := marlin_w13_qweight\<rparr> in
     bind_err (shape_at (w2_qweight l2) 1) (\<lambda>k2.
     bind_err (shape_at (w2_qweight l2) 2) (\<lambda>n2.
     bind_err (gptq_marlin_moe_repack ops (w2_qweight l2) (w2_g_idx_sort_indices l2)
                 (k2 * pack_factor cfg) n2 (size_bits (quant_type cfg))) (\<lambda>marlin_w2_qweight.
     let l3 = l2\<lparr>w2_qweight := marlin_w2_qweight\<rparr> in
     bind_err (shape_at (w13_scales l3) 2) (\<lambda>sn13.
     bind_err (marlin_moe_permute_scales ops (w13_scales l3)
                 (intermediate_size_per_partition l3) sn13 (group_size cfg))
       (\<lambda>marlin_w13_scales.
     let l4 = l3\<lparr>w13_scales := marlin_w13_scales\<rparr> in
     bind_err (shape_at (w2_scales l4) 1) (\<lambda>scale_rows.
     bind_err (shape_at (w2_scales l4) 2) (\<lambda>sn2.
     bind_err (marlin_moe_permute_scales ops (w2_scales l4)
                 (w2_scales_size_k cfg scale_rows) sn2 (group_size cfg))
       (\<lambda>marlin_w2_scales.
       Inr (l4\<lparr>w2_scales := marlin_w2_scales\<rparr>)))))))))))))"

subsection \<open>GPTQMarlinMoEMethod.apply\<close>

text \<open>
  The arguments of \<^verbatim>\<open>apply\<close>. Tensors are opaque (\<open>'x\<close>), as is the custom
  routing function (\<open>'f\<close>); the activation tensor \<^verbatim>\<open>x\<close> is the field
  \<open>x_input\<close>.
\<close>

record ('x, 'f) moe_apply_args =
  x_input :: 'x
  router_logits :: 'x
  top_k :: int
  renormalize :: bool
  use_grouped_topk :: bool
  topk_group :: "int option"
  num_expert_group :: "int option"
  global_num_experts :: int
  expert_map :: "'x option"
  custom_routing_function :: "'f option"
  scoring_func :: string
  e_score_correction_bias :: "'x option"
  apply_router_weight_on_input :: bool
  activation :: string
  enable_eplb :: bool
  expert_load_view :: "'x option"
  logical_to_physical_map :: "'x option"
  logical_replica_count :: "'x option"

text \<open>
  The external work of \<^verbatim>\<open>apply\<close>: the routing
  (\<^verbatim>\<open>FusedMoE.select_experts\<close>) and the fused kernel
  (\<^verbatim>\<open>torch.ops.vllm.fused_marlin_moe\<close>). Both are parameters, and the result of
  \<open>moe_apply\<close> lists the external calls made, in order, beside the value or the error.
  \<open>k_full\<close> is the method's \<^verbatim>\<open>is_k_full\<close>, set by
  \<^verbatim>\<open>create_weights\<close>.
\<close>

datatype kernel_call = select_experts_call | fused_marlin_moe_call

definition moe_apply ::
  "(('x, 'f) moe_apply_args \<Rightarrow> error + 'r)
    \<Rightarrow> ('d moe_layer \<Rightarrow> ('x, 'f) moe_apply_args \<Rightarrow> 'r \<Rightarrow> scalar_type \<Rightarrow> bool \<Rightarrow> error + 'y)
    \<Rightarrow> GPTQMarlinMoEMethod \<Rightarrow> bool \<Rightarrow> 'd moe_layer \<Rightarrow> ('x, 'f) moe_apply_args
    \<Rightarrow> kernel_call list \<times> (error + 'y)" where
  "moe_apply select_experts fused_marlin_moe self k_full layer args =
     (if enable_eplb args then ([], Inl NotImplementedError)
      else if activation args \<noteq> ''silu'' then ([], Inl AssertionError)
      else
        (case select_experts args of
           Inl err \<Rightarrow> ([select_experts_call], Inl err)
         | Inr routing \<Rightarrow>
             ([select_experts_call, fused_marlin_moe_call],
              fused_marlin_moe layer args routing (method_quant_type self) k_full)))"

subsection \<open>Per-layer method resolution\<close>














subsection \<open>Sample inputs\<close>

text \<open>
  Concrete external operations for running the model: the repacking operations keep the
  shape and record the size arguments they were called with as the tensor's contents. The
  sample layer has two experts, hidden size 8 and intermediate size 8, packed eight to a
  word.
\<close>

definition sample_ops :: "(int list) moe_ops" where
  "sample_ops =
     \<lparr>argsort = stable_argsort,
      uninit = (\<lambda>b e j. 0),
      gptq_marlin_moe_repack =
        (\<lambda>t idx size_k size_n bits. Inr (t\<lparr>tensor_data := [size_k, size_n, bits]\<rparr>)),
      marlin_moe_permute_scales =
        (\<lambda>s size_k size_n gsize. Inr (s\<lparr>tensor_data := [size_k, size_n, gsize]\<rparr>))\<rparr>"

definition sample_config :: "int \<Rightarrow> bool \<Rightarrow> GPTQMarlinConfig" where
  "sample_config gsize act =
     \<lparr>dynamic = [], weight_bits = 4, is_sym = True, pack_factor = 8, group_size = gsize,
      desc_act = act, lm_head_quantized = False, full_config = [], quant_type = uint4b8\<rparr>"

definition sample_layer :: "int \<Rightarrow> int list list \<Rightarrow> int list list \<Rightarrow> (int list) moe_layer" where
  "sample_layer scale_rows g13 g2 =
     \<lparr>w13_qweight = \<lparr>tensor_shape = [2, 1, 16], tensor_data = []\<rparr>,
      w2_qweight = \<lparr>tensor_shape = [2, 1, 8], tensor_data = []\<rparr>,
      w13_scales = \<lparr>tensor_shape = [2, scale_rows, 16], tensor_data = []\<rparr>,
      w2_scales = \<lparr>tensor_shape = [2, scale_rows, 8], tensor_data = []\<rparr>,
      w13_g_idx = g13,
      w2_g_idx = g2,
      w13_g_idx_sort_indices = map (map (\<lambda>v. 0)) g13,
      w2_g_idx_sort_indices = map (map (\<lambda>v. 0)) g2,
      intermediate_size_per_partition = 8\<rparr>"

definition sample_method :: GPTQMarlinMoEMethod where
  "sample_method = \<lparr>quant_config = sample_config 4 False, method_quant_type = uint4b8\<rparr>"

definition sample_apply_args :: "string \<Rightarrow> bool \<Rightarrow> (unit, unit) moe_apply_args" where
  "sample_apply_args act eplb =
     \<lparr>x_input = (), router_logits = (), top_k = 2, renormalize = True,
      use_grouped_topk = False, topk_group = None, num_expert_group = None,
      global_num_experts = - 1, expert_map = None, custom_routing_function = None,
      scoring_func = ''softmax'', e_score_correction_bias = None,
      apply_router_weight_on_input = False, activation = act, enable_eplb = eplb,
      expert_load_view = None, logical_to_physical_map = None,
      logical_replica_count = None\<rparr>"



section \<open>Properties\<close>

lemma GPTQMarlinConfig_init_Inr:
  "GPTQMarlinConfig_init bits gsize act symm lm_head dyn full = Inr cfg \<longleftrightarrow>
     bits \<noteq> 0 \<and> (\<exists>qt. TYPE_MAP (bits, symm) = Some qt \<and>
       cfg = \<lparr>dynamic = dyn, weight_bits = bits, is_sym = symm, pack_factor = 32 div bits,
              group_size = gsize, desc_act = (act \<and> gsize \<noteq> - 1),
              lm_head_quantized = lm_head, full_config = full, quant_type = qt\<rparr>)"
  by (auto simp: GPTQMarlinConfig_init_def bind_err_def floordiv_def Let_def
      split: option.splits)

lemma TYPE_MAP_Some:
  "TYPE_MAP (bits, symm) = Some qt \<longleftrightarrow>
     (bits = 4 \<and> symm \<and> qt = uint4b8) \<or> (bits = 8 \<and> symm \<and> qt = uint8b128)"
  by (auto simp: TYPE_MAP_def)

subsection \<open>Sequencing and allocation\<close>

lemma bind_err_Inr_iff: "bind_err r f = Inr y \<longleftrightarrow> (\<exists>v. r = Inr v \<and> f v = Inr y)"
  by (cases r) (auto simp: bind_err_def)

lemma bind_err_Inr [simp]: "bind_err (Inr v) f = f v"
  by (simp add: bind_err_def)

lemma bind_err_Inl [simp]: "bind_err (Inl e) f = Inl e"
  by (simp add: bind_err_def)

lemma floordiv_Inr_iff: "floordiv a b = Inr q \<longleftrightarrow> b \<noteq> 0 \<and> q = a div b"
  by (auto simp: floordiv_def)

lemma torch_empty_Inr_iff: "torch_empty dims = Inr s \<longleftrightarrow> (\<forall>d\<in>set dims. 0 \<le> d) \<and> s = dims"
  by (force simp: torch_empty_def list_ex_iff)

lemma scales_and_zp_sharding_Inr:
  "scales_and_zp_sharding rep cfg insz isp rp = Inr (d, n) \<longleftrightarrow>
     (let g = (if group_size cfg \<noteq> - 1 then group_size cfg else insz) in
      g \<noteq> 0 \<and>
      (if rep (desc_act cfg) (group_size cfg) rp then d = None \<and> n = insz div g
       else d = Some 0 \<and> n = isp div g))"
  by (auto simp: scales_and_zp_sharding_def Let_def bind_err_Inr_iff floordiv_Inr_iff)

lemma create_weights_Inr:
  assumes "create_weights ck rep cfg isp ops insz outsz dt = Inr L"
  shows "\<exists>k d n. ck \<lparr>full_weight_shape = (insz, outsz),
             partition_weight_shape = (isp, sum_list ops),
             weight_type = quant_type cfg, act_type = dt, mp_group_size = group_size cfg,
             zero_points = False, has_g_idx = desc_act cfg\<rparr> = Inr k \<and>
     scales_and_zp_sharding rep cfg insz isp (insz \<noteq> isp) = Inr (d, n) \<and>
     pack_factor cfg \<noteq> 0 \<and>
     qweight L = PackedvLLMParameter [isp div pack_factor cfg, sum_list ops] torch_int32 0 1 0
                   (pack_factor cfg) \<and>
     g_idx L = RowvLLMParameter [isp] torch_int32 0 \<and>
     scales L = (case d of None \<Rightarrow> ChannelQuantScaleParameter [n, sum_list ops] dt 1
                 | Some x \<Rightarrow> GroupQuantScaleParameter [n, sum_list ops] dt 1 0) \<and>
     qzeros L = (case d of
                   None \<Rightarrow> PackedColumnParameter [n, sum_list ops div pack_factor cfg]
                             torch_int32 1 1 (pack_factor cfg)
                 | Some x \<Rightarrow> PackedvLLMParameter [n, sum_list ops div pack_factor cfg]
                             torch_int32 0 1 1 (pack_factor cfg)) \<and>
     has_g_idx (kernel_config L) = desc_act cfg"
  using assms
  by (auto simp: create_weights_def Let_def bind_err_Inr_iff floordiv_Inr_iff
      torch_empty_Inr_iff split: prod.splits)


lemma moe_scales_sizes_Inr:
  "moe_scales_sizes cfg hidden isp full = Inr (s13, s2, st) \<longleftrightarrow>
     (if group_size cfg \<noteq> - 1 then
        group_size cfg \<noteq> 0 \<and> s13 = hidden div group_size cfg \<and>
        s2 = (if desc_act cfg then full else isp) div group_size cfg \<and> st = GROUP
      else s13 = 1 \<and> s2 = 1 \<and> st = CHANNEL)"
  by (auto simp: moe_scales_sizes_def Let_def bind_err_Inr_iff floordiv_Inr_iff)

lemma moe_create_weights_Inr:
  assumes "moe_create_weights cfg E hidden isp dt full_attr = Inr P"
  shows "\<exists>full s13 s2 st. full_attr = Some full \<and>
     moe_scales_sizes cfg hidden isp full = Inr (s13, s2, st) \<and>
     pack_factor cfg \<noteq> 0 \<and>
     w13_qweight_param P =
       MoEParameter [E, hidden div pack_factor cfg, 2 * isp] torch_int32 st True None \<and>
     w2_qweight_param P =
       MoEParameter [E, isp div pack_factor cfg, hidden] torch_int32 st True None \<and>
     w13_scales_param P = MoEParameter [E, s13, 2 * isp] dt st True None \<and>
     w2_scales_param P = MoEParameter [E, s2, hidden] dt st True (Some (desc_act cfg)) \<and>
     w2_qzeros_param P =
       MoEParameter [E, s2, hidden div pack_factor cfg] dt st True (Some (desc_act cfg)) \<and>
     w13_g_idx_param P = MoEParameter [E, hidden] torch_int32 st True None \<and>
     w2_g_idx_param P = MoEParameter [E, isp] torch_int32 st True None \<and>
     is_k_full P = (\<not> desc_act cfg \<or> isp = full)"
proof -
  from assms obtain full where f: "full_attr = Some full"
    by (cases full_attr) (auto simp: moe_create_weights_def)
  from assms f obtain s13 s2 st where
    s: "moe_scales_sizes cfg hidden isp full = Inr (s13, s2, st)"
    by (cases "moe_scales_sizes cfg hidden isp full") (auto simp: moe_create_weights_def)
  from assms show ?thesis
    unfolding moe_create_weights_def f s
    by (auto simp: Let_def bind_err_Inr_iff floordiv_Inr_iff torch_empty_Inr_iff)
qed


lemma shape_at_Inr_iff:
  "shape_at t i = Inr v \<longleftrightarrow> i < length (tensor_shape t) \<and> v = tensor_shape t ! i"
  by (auto simp: shape_at_def)

lemma process_act_order_disabled:
  "\<not> desc_act cfg \<Longrightarrow>
   process_act_order ops cfg layer =
     Inr (layer\<lparr>w13_g_idx := replicate (length (w13_g_idx layer)) [],
                w2_g_idx := replicate (length (w13_g_idx layer)) [],
                w13_g_idx_sort_indices := replicate (length (w13_g_idx layer)) [],
                w2_g_idx_sort_indices := replicate (length (w13_g_idx layer)) []\<rparr>)"
  by (simp add: process_act_order_def Let_def)

lemma process_act_order_frame:
  assumes "process_act_order ops cfg layer = Inr l1"
  shows "w13_qweight l1 = w13_qweight layer \<and> w2_qweight l1 = w2_qweight layer \<and>
         w13_scales l1 = w13_scales layer \<and> w2_scales l1 = w2_scales layer \<and>
         intermediate_size_per_partition l1 = intermediate_size_per_partition layer"
  using assms
  by (auto simp: process_act_order_def Let_def bind_err_Inr_iff split: if_splits)

lemma process_weights_after_loading_Inr:
  assumes "process_weights_after_loading ops cfg layer = Inr layer'"
  shows "\<exists>l1 q13 q2 s13 s2.
     process_act_order ops cfg layer = Inr l1 \<and>
     2 < length (tensor_shape (w13_qweight l1)) \<and>
     gptq_marlin_moe_repack ops (w13_qweight l1) (w13_g_idx_sort_indices l1)
       (tensor_shape (w13_qweight l1) ! 1 * pack_factor cfg) (tensor_shape (w13_qweight l1) ! 2)
       (size_bits (quant_type cfg)) = Inr q13 \<and>
     2 < length (tensor_shape (w2_qweight l1)) \<and>
     gptq_marlin_moe_repack ops (w2_qweight l1) (w2_g_idx_sort_indices l1)
       (tensor_shape (w2_qweight l1) ! 1 * pack_factor cfg) (tensor_shape (w2_qweight l1) ! 2)
       (size_bits (quant_type cfg)) = Inr q2 \<and>
     2 < length (tensor_shape (w13_scales l1)) \<and>
     marlin_moe_permute_scales ops (w13_scales l1) (intermediate_size_per_partition l1)
       (tensor_shape (w13_scales l1) ! 2) (group_size cfg) = Inr s13 \<and>
     2 < length (tensor_shape (w2_scales l1)) \<and>
     marlin_moe_permute_scales ops (w2_scales l1)
       (w2_scales_size_k cfg (tensor_shape (w2_scales l1) ! 1))
       (tensor_shape (w2_scales l1) ! 2) (group_size cfg) = Inr s2 \<and>
     layer' = l1\<lparr>w13_qweight := q13, w2_qweight := q2, w13_scales := s13, w2_scales := s2\<rparr>"
  using assms
  by (auto simp: process_weights_after_loading_def Let_def bind_err_Inr_iff shape_at_Inr_iff)

subsection \<open>Policy construction\<close>

text \<open>
  C4. Constructing a config succeeds exactly for the pairs (4, symmetric) and
  (8, symmetric) of bit width and symmetry, and then the config carries the quant type that
  \<^verbatim>\<open>TYPE_MAP\<close> gives the pair, whose bit width is the requested one; the two quant
  types differ. For every other pair the constructor raises. The constructor of the
  mixture-of-experts method succeeds exactly when the bit width of the config's quant type
  is 4 or 8, and raises \<open>ValueError\<close> otherwise.
\<close>

theorem C4_policy_construction:
  "(GPTQMarlinConfig_init bits gsize act symm lm_head dyn full = Inr cfg \<longrightarrow>
      (bits, symm) \<in> {(4, True), (8, True)} \<and>
      TYPE_MAP (bits, symm) = Some (quant_type cfg) \<and>
      size_bits (quant_type cfg) = bits \<and> weight_bits cfg = bits \<and> is_sym cfg = symm) \<and>
   ((bits, symm) \<in> {(4, True), (8, True)} \<longrightarrow>
      (\<exists>c. GPTQMarlinConfig_init bits gsize act symm lm_head dyn full = Inr c \<and>
           quant_type c = (if bits = 4 then uint4b8 else uint8b128))) \<and>
   ((bits, symm) \<notin> {(4, True), (8, True)} \<longrightarrow>
      (\<exists>e. GPTQMarlinConfig_init bits gsize act symm lm_head dyn full = Inl e)) \<and>
   uint4b8 \<noteq> uint8b128 \<and>
   ((\<exists>m. GPTQMarlinMoEMethod_init c' = Inr m) \<longleftrightarrow> size_bits (quant_type c') \<in> {4, 8}) \<and>
   (size_bits (quant_type c') \<notin> {4, 8} \<longrightarrow> GPTQMarlinMoEMethod_init c' = Inl ValueError)"
proof -
  have a: "GPTQMarlinConfig_init bits gsize act symm lm_head dyn full = Inr cfg \<longrightarrow>
      (bits, symm) \<in> {(4, True), (8, True)} \<and>
      TYPE_MAP (bits, symm) = Some (quant_type cfg) \<and>
      size_bits (quant_type cfg) = bits \<and> weight_bits cfg = bits \<and> is_sym cfg = symm"
    by (auto simp: GPTQMarlinConfig_init_Inr TYPE_MAP_Some uint4b8_def uint8b128_def)
  have b: "(bits, symm) \<in> {(4, True), (8, True)} \<longrightarrow>
      (\<exists>c. GPTQMarlinConfig_init bits gsize act symm lm_head dyn full = Inr c \<and>
           quant_type c = (if bits = 4 then uint4b8 else uint8b128))"
    by (auto simp: GPTQMarlinConfig_init_Inr TYPE_MAP_Some)
  have c: "(bits, symm) \<notin> {(4, True), (8, True)} \<longrightarrow>
      (\<exists>e. GPTQMarlinConfig_init bits gsize act symm lm_head dyn full = Inl e)"
    by (cases "GPTQMarlinConfig_init bits gsize act symm lm_head dyn full")
       (auto simp: GPTQMarlinConfig_init_Inr TYPE_MAP_Some)
  have d: "uint4b8 \<noteq> uint8b128"
    by (simp add: uint4b8_def uint8b128_def)
  have e: "(\<exists>m. GPTQMarlinMoEMethod_init c' = Inr m) \<longleftrightarrow> size_bits (quant_type c') \<in> {4, 8}"
    by (auto simp: GPTQMarlinMoEMethod_init_def)
  have f: "size_bits (quant_type c') \<notin> {4, 8} \<longrightarrow> GPTQMarlinMoEMethod_init c' = Inl ValueError"
    by (auto simp: GPTQMarlinMoEMethod_init_def)
  from a b c d e f show ?thesis by blast
qed

theorem C4_policy_construction_witness:
  "(\<exists>c. GPTQMarlinConfig_init 4 128 True True False [] [] = Inr c \<and> quant_type c = uint4b8) \<and>
   (\<exists>c. GPTQMarlinConfig_init 8 (- 1) False True False [] [] = Inr c \<and> quant_type c = uint8b128) \<and>
   (\<exists>e. GPTQMarlinConfig_init 4 128 True False False [] [] = Inl e) \<and>
   (\<exists>e. GPTQMarlinConfig_init 3 128 True True False [] [] = Inl e) \<and>
   GPTQMarlinMoEMethod_init (sample_config 128 True\<lparr>quant_type := ScalarType 2 0\<rparr>) = Inl ValueError"
  using C4_policy_construction [of 4 128 True True False "[]" "[]"]
    C4_policy_construction [of 8 "- 1" False True False "[]" "[]"]
    C4_policy_construction [of 4 128 True False False "[]" "[]"]
    C4_policy_construction [of 3 128 True True False "[]" "[]"]
    C4_policy_construction [where c' = "sample_config 128 True\<lparr>quant_type := ScalarType 2 0\<rparr>"]
  by (simp add: sample_config_def)

subsection \<open>Shapes of a dense layer\<close>

text \<open>
  C3. Every dense layer that \<^verbatim>\<open>create_weights\<close> creates has a packed weight of
  shape (input size per partition \<open>div\<close> pack factor, output size per partition), the
  output size per partition being the sum of the output partition sizes; for a config made
  by the constructor the pack factor is \<open>32 div bits\<close>. In particular, with 4 bits,
  group size 128 and an unpartitioned 4096 by 4096 layer, creation succeeds whenever the
  kernel chooser accepts the layer, whatever the sharding helper answers, and the packed
  weight has shape (512, 4096) and the scales have 32 rows.
\<close>

theorem C3_packed_weight_shape:
  "(create_weights ck rep cfg isp ops insz outsz dt = Inr L \<longrightarrow>
      param_shape (qweight L) = [isp div pack_factor cfg, sum_list ops] \<and>
      packed_factor (qweight L) = pack_factor cfg) \<and>
   (GPTQMarlinConfig_init bits gsize act symm lm_head dyn full = Inr cfg \<longrightarrow>
      pack_factor cfg = 32 div bits \<and>
      (create_weights ck rep cfg isp ops insz outsz dt = Inr L \<longrightarrow>
         param_shape (qweight L) = [isp div (32 div bits), sum_list ops])) \<and>
   (GPTQMarlinConfig_init 4 128 act symm lm_head dyn full = Inr cfg' \<and>
    ck \<lparr>full_weight_shape = (4096, 4096), partition_weight_shape = (4096, 4096),
        weight_type = quant_type cfg', act_type = dt, mp_group_size = 128,
        zero_points = False, has_g_idx = act\<rparr> = Inr k \<longrightarrow>
      (\<exists>L'. create_weights ck rep cfg' 4096 [4096] 4096 4096 dt = Inr L' \<and>
            param_shape (qweight L') = [512, 4096] \<and>
            param_shape (scales L') = [32, 4096]))"
proof -
  have a: "create_weights ck rep cfg isp ops insz outsz dt = Inr L \<longrightarrow>
      param_shape (qweight L) = [isp div pack_factor cfg, sum_list ops] \<and>
      packed_factor (qweight L) = pack_factor cfg"
    using create_weights_Inr [of ck rep cfg isp ops insz outsz dt L] by auto
  have b: "GPTQMarlinConfig_init bits gsize act symm lm_head dyn full = Inr cfg \<longrightarrow>
      pack_factor cfg = 32 div bits \<and>
      (create_weights ck rep cfg isp ops insz outsz dt = Inr L \<longrightarrow>
         param_shape (qweight L) = [isp div (32 div bits), sum_list ops])"
    using a by (auto simp: GPTQMarlinConfig_init_Inr)
  have c: "GPTQMarlinConfig_init 4 128 act symm lm_head dyn full = Inr cfg' \<and>
    ck \<lparr>full_weight_shape = (4096, 4096), partition_weight_shape = (4096, 4096),
        weight_type = quant_type cfg', act_type = dt, mp_group_size = 128,
        zero_points = False, has_g_idx = act\<rparr> = Inr k \<longrightarrow>
      (\<exists>L'. create_weights ck rep cfg' 4096 [4096] 4096 4096 dt = Inr L' \<and>
            param_shape (qweight L') = [512, 4096] \<and>
            param_shape (scales L') = [32, 4096])"
  proof (intro impI, elim conjE)
    assume i: "GPTQMarlinConfig_init 4 128 act symm lm_head dyn full = Inr cfg'"
      and k: "ck \<lparr>full_weight_shape = (4096, 4096), partition_weight_shape = (4096, 4096),
        weight_type = quant_type cfg', act_type = dt, mp_group_size = 128,
        zero_points = False, has_g_idx = act\<rparr> = Inr k"
    from i have f: "pack_factor cfg' = 8" "group_size cfg' = 128" "desc_act cfg' = act"
      by (auto simp: GPTQMarlinConfig_init_Inr)
    have s: "scales_and_zp_sharding rep cfg' 4096 4096 False =
               Inr (if rep act 128 False then None else Some 0, 32)"
      by (simp add: scales_and_zp_sharding_def f floordiv_def)
    show "\<exists>L'. create_weights ck rep cfg' 4096 [4096] 4096 4096 dt = Inr L' \<and>
            param_shape (qweight L') = [512, 4096] \<and>
            param_shape (scales L') = [32, 4096]"
      by (simp add: create_weights_def f k s floordiv_def torch_empty_def)
  qed
  show ?thesis by (intro conjI a b c)
qed

theorem C3_packed_weight_shape_witness:
  "\<exists>L. create_weights (\<lambda>c. Inr ''MarlinLinearKernel'') (\<lambda>a g r. a)
          (sample_config 128 True) 4096 [4096] 4096 4096 torch_half = Inr L \<and>
        param_shape (qweight L) = [512, 4096] \<and> param_shape (scales L) = [32, 4096]"
proof -
  have i: "GPTQMarlinConfig_init 4 128 True True False [] [] = Inr (sample_config 128 True)"
    by (simp add: GPTQMarlinConfig_init_def sample_config_def floordiv_def TYPE_MAP_def)
  show ?thesis
    using C3_packed_weight_shape [where ck = "\<lambda>c. Inr ''MarlinLinearKernel''"
        and dt = torch_half and act = True and symm = True and lm_head = False and dyn = "[]"
        and full = "[]" and cfg' = "sample_config 128 True" and k = "''MarlinLinearKernel''"
        and rep = "\<lambda>a g r. a"] i
    by simp
qed

subsection \<open>Replication and sharding of the scales\<close>

text \<open>
  C1, as the claim states it, fails for the mixture-of-experts layer: with activation-order
  enabled and the intermediate dimension partitioned (512 of 1024), the down-projection
  scales have \<open>1024 div 128 = 8\<close> rows and are marked \<^verbatim>\<open>load_full_w2\<close>, not the
  \<open>512 div 128 = 4\<close> rows of a sharded tensor; with activation-order disabled they have
  the partition's 4 rows, not the 8 rows of a replicated one.
\<close>

theorem C1_counterexample:
  "desc_act (sample_config 128 True) \<and> (512::int) \<noteq> 1024 \<and>
   moe_scales_sizes (sample_config 128 True) 2048 512 1024 = Inr (16, 8, GROUP) \<and>
   map_sum id w2_scales_param
     (moe_create_weights (sample_config 128 True) 8 2048 512 torch_half (Some 1024)) =
     Inr (MoEParameter [8, 8, 2048] torch_half GROUP True (Some True)) \<and>
   (8::int) \<noteq> 512 div 128 \<and>
   \<not> desc_act (sample_config 128 False) \<and>
   map_sum id w2_scales_param
     (moe_create_weights (sample_config 128 False) 8 2048 512 torch_half (Some 1024)) =
     Inr (MoEParameter [8, 4, 2048] torch_half GROUP True (Some False)) \<and>
   (4::int) \<noteq> 1024 div 128"
  by (simp add: moe_create_weights_def moe_scales_sizes_def sample_config_def floordiv_def
      torch_empty_def Let_def)

text \<open>
  C1, amended. For a dense layer, with the sharding helper as the spec describes it, the
  scales and zero points are replicated (no input dimension, row count input size
  \<open>div\<close> effective group size) when activation-order is disabled or the partition is
  not row-parallel, and sharded along dimension 0 (row count input size per partition
  \<open>div\<close> effective group size) when activation-order is enabled and the partition is
  row-parallel; the effective group size is the configured one, or the input size for
  channel-wise quantization. For the mixture-of-experts layer the down-projection scales
  follow the opposite polarity: with a group size they are sized on the full intermediate
  size and marked \<^verbatim>\<open>load_full_w2\<close> when activation-order is enabled, and sized on
  the partition's intermediate size when it is disabled; channel-wise they have one row.
\<close>

theorem C1_scale_sharding:
  "(create_weights ck marlin_repeat_scales_on_all_ranks cfg isp ops insz outsz dt = Inr L \<longrightarrow>
      (\<not> desc_act cfg \<or> insz = isp \<longrightarrow>
         scales_and_zp_sharding marlin_repeat_scales_on_all_ranks cfg insz isp (insz \<noteq> isp) =
           Inr (None, insz div (if group_size cfg \<noteq> - 1 then group_size cfg else insz)) \<and>
         scales L = ChannelQuantScaleParameter
           [insz div (if group_size cfg \<noteq> - 1 then group_size cfg else insz), sum_list ops]
           dt 1 \<and>
         qzeros L = PackedColumnParameter
           [insz div (if group_size cfg \<noteq> - 1 then group_size cfg else insz),
            sum_list ops div pack_factor cfg] torch_int32 1 1 (pack_factor cfg)) \<and>
      (desc_act cfg \<and> insz \<noteq> isp \<longrightarrow>
         scales_and_zp_sharding marlin_repeat_scales_on_all_ranks cfg insz isp (insz \<noteq> isp) =
           Inr (Some 0, isp div (if group_size cfg \<noteq> - 1 then group_size cfg else insz)) \<and>
         scales L = GroupQuantScaleParameter
           [isp div (if group_size cfg \<noteq> - 1 then group_size cfg else insz), sum_list ops]
           dt 1 0 \<and>
         qzeros L = PackedvLLMParameter
           [isp div (if group_size cfg \<noteq> - 1 then group_size cfg else insz),
            sum_list ops div pack_factor cfg] torch_int32 0 1 1 (pack_factor cfg))) \<and>
   (moe_create_weights cfg' E hidden misp dt' (Some mfull) = Inr P \<longrightarrow>
      (group_size cfg' \<noteq> - 1 \<and> desc_act cfg' \<longrightarrow>
         w2_scales_param P =
           MoEParameter [E, mfull div group_size cfg', hidden] dt' GROUP True (Some True)) \<and>
      (group_size cfg' \<noteq> - 1 \<and> \<not> desc_act cfg' \<longrightarrow>
         w2_scales_param P =
           MoEParameter [E, misp div group_size cfg', hidden] dt' GROUP True (Some False)) \<and>
      (group_size cfg' = - 1 \<longrightarrow>
         w2_scales_param P = MoEParameter [E, 1, hidden] dt' CHANNEL True (Some (desc_act cfg'))))"
proof -
  have lin: "create_weights ck marlin_repeat_scales_on_all_ranks cfg isp ops insz outsz dt = Inr L \<longrightarrow>
      (\<not> desc_act cfg \<or> insz = isp \<longrightarrow>
         scales_and_zp_sharding marlin_repeat_scales_on_all_ranks cfg insz isp (insz \<noteq> isp) =
           Inr (None, insz div (if group_size cfg \<noteq> - 1 then group_size cfg else insz)) \<and>
         scales L = ChannelQuantScaleParameter
           [insz div (if group_size cfg \<noteq> - 1 then group_size cfg else insz), sum_list ops]
           dt 1 \<and>
         qzeros L = PackedColumnParameter
           [insz div (if group_size cfg \<noteq> - 1 then group_size cfg else insz),
            sum_list ops div pack_factor cfg] torch_int32 1 1 (pack_factor cfg)) \<and>
      (desc_act cfg \<and> insz \<noteq> isp \<longrightarrow>
         scales_and_zp_sharding marlin_repeat_scales_on_all_ranks cfg insz isp (insz \<noteq> isp) =
           Inr (Some 0, isp div (if group_size cfg \<noteq> - 1 then group_size cfg else insz)) \<and>
         scales L = GroupQuantScaleParameter
           [isp div (if group_size cfg \<noteq> - 1 then group_size cfg else insz), sum_list ops]
           dt 1 0 \<and>
         qzeros L = PackedvLLMParameter
           [isp div (if group_size cfg \<noteq> - 1 then group_size cfg else insz),
            sum_list ops div pack_factor cfg] torch_int32 0 1 1 (pack_factor cfg))"
  proof
    assume "create_weights ck marlin_repeat_scales_on_all_ranks cfg isp ops insz outsz dt = Inr L"
    from create_weights_Inr [OF this] obtain d n where
      sh: "scales_and_zp_sharding marlin_repeat_scales_on_all_ranks cfg insz isp (insz \<noteq> isp) =
             Inr (d, n)"
      and sc: "scales L = (case d of None \<Rightarrow> ChannelQuantScaleParameter [n, sum_list ops] dt 1
                 | Some v \<Rightarrow> GroupQuantScaleParameter [n, sum_list ops] dt 1 0)"
      and qz: "qzeros L = (case d of
                   None \<Rightarrow> PackedColumnParameter [n, sum_list ops div pack_factor cfg]
                             torch_int32 1 1 (pack_factor cfg)
                 | Some v \<Rightarrow> PackedvLLMParameter [n, sum_list ops div pack_factor cfg]
                             torch_int32 0 1 1 (pack_factor cfg))"
      by blast
    from sh have dn: "(if \<not> desc_act cfg \<or> insz = isp
        then d = None \<and> n = insz div (if group_size cfg \<noteq> - 1 then group_size cfg else insz)
        else d = Some 0 \<and>
             n = isp div (if group_size cfg \<noteq> - 1 then group_size cfg else insz))"
      by (simp add: scales_and_zp_sharding_Inr marlin_repeat_scales_on_all_ranks_def Let_def)
    show "(\<not> desc_act cfg \<or> insz = isp \<longrightarrow>
         scales_and_zp_sharding marlin_repeat_scales_on_all_ranks cfg insz isp (insz \<noteq> isp) =
           Inr (None, insz div (if group_size cfg \<noteq> - 1 then group_size cfg else insz)) \<and>
         scales L = ChannelQuantScaleParameter
           [insz div (if group_size cfg \<noteq> - 1 then group_size cfg else insz), sum_list ops]
           dt 1 \<and>
         qzeros L = PackedColumnParameter
           [insz div (if group_size cfg \<noteq> - 1 then group_size cfg else insz),
            sum_list ops div pack_factor cfg] torch_int32 1 1 (pack_factor cfg)) \<and>
      (desc_act cfg \<and> insz \<noteq> isp \<longrightarrow>
         scales_and_zp_sharding marlin_repeat_scales_on_all_ranks cfg insz isp (insz \<noteq> isp) =
           Inr (Some 0, isp div (if group_size cfg \<noteq> - 1 then group_size cfg else insz)) \<and>
         scales L = GroupQuantScaleParameter
           [isp div (if group_size cfg \<noteq> - 1 then group_size cfg else insz), sum_list ops]
           dt 1 0 \<and>
         qzeros L = PackedvLLMParameter
           [isp div (if group_size cfg \<noteq> - 1 then group_size cfg else insz),
            sum_list ops div pack_factor cfg] torch_int32 0 1 1 (pack_factor cfg))"
      using dn sh sc qz by (auto split: if_splits)
  qed
  have moe: "moe_create_weights cfg' E hidden misp dt' (Some mfull) = Inr P \<longrightarrow>
      (group_size cfg' \<noteq> - 1 \<and> desc_act cfg' \<longrightarrow>
         w2_scales_param P =
           MoEParameter [E, mfull div group_size cfg', hidden] dt' GROUP True (Some True)) \<and>
      (group_size cfg' \<noteq> - 1 \<and> \<not> desc_act cfg' \<longrightarrow>
         w2_scales_param P =
           MoEParameter [E, misp div group_size cfg', hidden] dt' GROUP True (Some False)) \<and>
      (group_size cfg' = - 1 \<longrightarrow>
         w2_scales_param P = MoEParameter [E, 1, hidden] dt' CHANNEL True (Some (desc_act cfg')))"
  proof
    assume "moe_create_weights cfg' E hidden misp dt' (Some mfull) = Inr P"
    from moe_create_weights_Inr [OF this] obtain s13 s2 st where
      "moe_scales_sizes cfg' hidden misp mfull = Inr (s13, s2, st)"
      "w2_scales_param P = MoEParameter [E, s2, hidden] dt' st True (Some (desc_act cfg'))"
      by auto
    then show "(group_size cfg' \<noteq> - 1 \<and> desc_act cfg' \<longrightarrow>
         w2_scales_param P =
           MoEParameter [E, mfull div group_size cfg', hidden] dt' GROUP True (Some True)) \<and>
      (group_size cfg' \<noteq> - 1 \<and> \<not> desc_act cfg' \<longrightarrow>
         w2_scales_param P =
           MoEParameter [E, misp div group_size cfg', hidden] dt' GROUP True (Some False)) \<and>
      (group_size cfg' = - 1 \<longrightarrow>
         w2_scales_param P = MoEParameter [E, 1, hidden] dt' CHANNEL True (Some (desc_act cfg')))"
      by (auto simp: moe_scales_sizes_Inr split: if_splits)
  qed
  show ?thesis by (intro conjI lin moe)
qed

theorem C1_scale_sharding_witness:
  "scales
     (projr (create_weights (\<lambda>c. Inr ''MarlinLinearKernel'') marlin_repeat_scales_on_all_ranks
        (sample_config 128 True) 2048 [4096] 4096 4096 torch_half)) =
     GroupQuantScaleParameter [16, 4096] torch_half 1 0 \<and>
   scales
     (projr (create_weights (\<lambda>c. Inr ''MarlinLinearKernel'') marlin_repeat_scales_on_all_ranks
        (sample_config 128 False) 2048 [4096] 4096 4096 torch_half)) =
     ChannelQuantScaleParameter [32, 4096] torch_half 1 \<and>
   w2_scales_param
     (projr (moe_create_weights (sample_config 128 True) 8 2048 512 torch_half (Some 1024))) =
     MoEParameter [8, 8, 2048] torch_half GROUP True (Some True)"
proof -
  let ?ck = "\<lambda>c :: MPLinearLayerConfig. Inr ''MarlinLinearKernel'' :: error + string"
  obtain L1 where l1: "create_weights ?ck marlin_repeat_scales_on_all_ranks
        (sample_config 128 True) 2048 [4096] 4096 4096 torch_half = Inr L1"
    by (simp add: create_weights_def scales_and_zp_sharding_def sample_config_def floordiv_def
        torch_empty_def marlin_repeat_scales_on_all_ranks_def)
  obtain L2 where l2: "create_weights ?ck marlin_repeat_scales_on_all_ranks
        (sample_config 128 False) 2048 [4096] 4096 4096 torch_half = Inr L2"
    by (simp add: create_weights_def scales_and_zp_sharding_def sample_config_def floordiv_def
        torch_empty_def marlin_repeat_scales_on_all_ranks_def)
  obtain P where p: "moe_create_weights (sample_config 128 True) 8 2048 512 torch_half
        (Some 1024) = Inr P"
    by (simp add: moe_create_weights_def moe_scales_sizes_def sample_config_def floordiv_def
        torch_empty_def Let_def)
  have c: "desc_act (sample_config 128 True)" "\<not> desc_act (sample_config 128 False)"
    "group_size (sample_config 128 True) = 128" "group_size (sample_config 128 False) = 128"
    by (simp_all add: sample_config_def)
  show ?thesis
    using C1_scale_sharding [where ck = ?ck and cfg = "sample_config 128 True" and isp = 2048
        and ops = "[4096]" and insz = 4096 and outsz = 4096 and dt = torch_half and L = L1
        and cfg' = "sample_config 128 True" and E = 8 and hidden = 2048 and misp = 512
        and dt' = torch_half and mfull = 1024 and P = P]
      C1_scale_sharding [where ck = ?ck and cfg = "sample_config 128 False" and isp = 2048
        and ops = "[4096]" and insz = 4096 and outsz = 4096 and dt = torch_half and L = L2
        and cfg' = "sample_config 128 True" and E = 8 and hidden = 2048 and misp = 512
        and dt' = torch_half and mfull = 1024 and P = P]
      l1 l2 p c
    by simp
qed

subsection \<open>Channel-wise quantization and activation-order\<close>

text \<open>
  C10. A config constructed with activation-order requested and group size \<open>-1\<close> has
  activation-order off, so in every constructed config activation-order implies a group
  size other than \<open>-1\<close>. Consequently a constructed channel-wise config takes none of
  the activation-order paths: the finalize step resets the index tensors instead of
  sorting them, the dense planner consults the sharding helper with the activation-order
  flag off and tells the kernel there is no \<^verbatim>\<open>g_idx\<close>, and the expert layer has
  one scale row, does not load the full \<^verbatim>\<open>w2\<close> scales and has
  \<^verbatim>\<open>is_k_full\<close> set.
\<close>

theorem C10_channelwise_clears_act_order:
  "GPTQMarlinConfig_init bits gsize act symm lm_head dyn full = Inr cfg \<Longrightarrow>
     (act \<and> gsize = - 1 \<longrightarrow> \<not> desc_act cfg) \<and>
     (desc_act cfg \<longrightarrow> group_size cfg \<noteq> - 1) \<and>
     (group_size cfg = - 1 \<longrightarrow>
        process_act_order ops cfg layer =
          Inr (layer\<lparr>w13_g_idx := replicate (length (w13_g_idx layer)) [],
                     w2_g_idx := replicate (length (w13_g_idx layer)) [],
                     w13_g_idx_sort_indices := replicate (length (w13_g_idx layer)) [],
                     w2_g_idx_sort_indices := replicate (length (w13_g_idx layer)) []\<rparr>) \<and>
        scales_and_zp_sharding rep cfg insz isp rp =
          scales_and_zp_sharding (\<lambda>a g r. rep False (- 1) r) cfg insz isp rp \<and>
        (create_weights ck rep cfg isp outs insz outsz dt = Inr L \<longrightarrow>
           \<not> has_g_idx (kernel_config L)) \<and>
        (moe_create_weights cfg E hidden misp dt mfull = Inr P \<longrightarrow>
           is_k_full P \<and> load_full_w2 (w2_scales_param P) = Some False \<and>
           load_full_w2 (w2_qzeros_param P) = Some False \<and>
           moe_shape (w2_scales_param P) = [E, 1, hidden]))"
proof -
  assume i: "GPTQMarlinConfig_init bits gsize act symm lm_head dyn full = Inr cfg"
  then have d: "desc_act cfg = (act \<and> gsize \<noteq> - 1)" and g: "group_size cfg = gsize"
    by (auto simp: GPTQMarlinConfig_init_Inr)
  have a: "act \<and> gsize = - 1 \<longrightarrow> \<not> desc_act cfg"
    using d by simp
  have b: "desc_act cfg \<longrightarrow> group_size cfg \<noteq> - 1"
    using d g by simp
  have c: "group_size cfg = - 1 \<longrightarrow>
        process_act_order ops cfg layer =
          Inr (layer\<lparr>w13_g_idx := replicate (length (w13_g_idx layer)) [],
                     w2_g_idx := replicate (length (w13_g_idx layer)) [],
                     w13_g_idx_sort_indices := replicate (length (w13_g_idx layer)) [],
                     w2_g_idx_sort_indices := replicate (length (w13_g_idx layer)) []\<rparr>) \<and>
        scales_and_zp_sharding rep cfg insz isp rp =
          scales_and_zp_sharding (\<lambda>a g r. rep False (- 1) r) cfg insz isp rp \<and>
        (create_weights ck rep cfg isp outs insz outsz dt = Inr L \<longrightarrow>
           \<not> has_g_idx (kernel_config L)) \<and>
        (moe_create_weights cfg E hidden misp dt mfull = Inr P \<longrightarrow>
           is_k_full P \<and> load_full_w2 (w2_scales_param P) = Some False \<and>
           load_full_w2 (w2_qzeros_param P) = Some False \<and>
           moe_shape (w2_scales_param P) = [E, 1, hidden])"
  proof
    assume ch: "group_size cfg = - 1"
    with b have nd: "\<not> desc_act cfg" by blast
    have c1: "process_act_order ops cfg layer =
          Inr (layer\<lparr>w13_g_idx := replicate (length (w13_g_idx layer)) [],
                     w2_g_idx := replicate (length (w13_g_idx layer)) [],
                     w13_g_idx_sort_indices := replicate (length (w13_g_idx layer)) [],
                     w2_g_idx_sort_indices := replicate (length (w13_g_idx layer)) []\<rparr>)"
      by (rule process_act_order_disabled [OF nd])
    have c2: "scales_and_zp_sharding rep cfg insz isp rp =
          scales_and_zp_sharding (\<lambda>a g r. rep False (- 1) r) cfg insz isp rp"
      using nd ch by (simp add: scales_and_zp_sharding_def)
    have c3: "create_weights ck rep cfg isp outs insz outsz dt = Inr L \<longrightarrow>
           \<not> has_g_idx (kernel_config L)"
      using create_weights_Inr [of ck rep cfg isp outs insz outsz dt L] nd by auto
    have c4: "moe_create_weights cfg E hidden misp dt mfull = Inr P \<longrightarrow>
           is_k_full P \<and> load_full_w2 (w2_scales_param P) = Some False \<and>
           load_full_w2 (w2_qzeros_param P) = Some False \<and>
           moe_shape (w2_scales_param P) = [E, 1, hidden]"
      using moe_create_weights_Inr [of cfg E hidden misp dt mfull P] nd ch
      by (auto simp: moe_scales_sizes_Inr)
    show "process_act_order ops cfg layer =
          Inr (layer\<lparr>w13_g_idx := replicate (length (w13_g_idx layer)) [],
                     w2_g_idx := replicate (length (w13_g_idx layer)) [],
                     w13_g_idx_sort_indices := replicate (length (w13_g_idx layer)) [],
                     w2_g_idx_sort_indices := replicate (length (w13_g_idx layer)) []\<rparr>) \<and>
        scales_and_zp_sharding rep cfg insz isp rp =
          scales_and_zp_sharding (\<lambda>a g r. rep False (- 1) r) cfg insz isp rp \<and>
        (create_weights ck rep cfg isp outs insz outsz dt = Inr L \<longrightarrow>
           \<not> has_g_idx (kernel_config L)) \<and>
        (moe_create_weights cfg E hidden misp dt mfull = Inr P \<longrightarrow>
           is_k_full P \<and> load_full_w2 (w2_scales_param P) = Some False \<and>
           load_full_w2 (w2_qzeros_param P) = Some False \<and>
           moe_shape (w2_scales_param P) = [E, 1, hidden])"
      by (intro conjI c1 c2 c3 c4)
  qed
  show ?thesis by (intro conjI a b c)
qed

theorem C10_channelwise_clears_act_order_witness:
  "GPTQMarlinConfig_init 4 (- 1) True True False [] [] = Inr (sample_config (- 1) False) \<and>
   \<not> desc_act (sample_config (- 1) False) \<and>
   process_act_order sample_ops (sample_config (- 1) False)
       (sample_layer 1 [[1, 0], [0, 1]] [[0, 0], [1, 1]]) =
     Inr ((sample_layer 1 [[1, 0], [0, 1]] [[0, 0], [1, 1]])
            \<lparr>w13_g_idx := [[], []], w2_g_idx := [[], []],
             w13_g_idx_sort_indices := [[], []], w2_g_idx_sort_indices := [[], []]\<rparr>)"
proof -
  have i: "GPTQMarlinConfig_init 4 (- 1) True True False [] [] = Inr (sample_config (- 1) False)"
    by (simp add: GPTQMarlinConfig_init_def sample_config_def floordiv_def TYPE_MAP_def)
  have g: "group_size (sample_config (- 1) False) = - 1"
    by (simp add: sample_config_def)
  have n: "replicate (length (w13_g_idx (sample_layer 1 [[1, 0], [0, 1]] [[0, 0], [1, 1]]))) []
             = [[], [] :: int list]"
    by (simp add: sample_layer_def)
  show ?thesis
    using C10_channelwise_clears_act_order [OF i, where ops = sample_ops
        and layer = "sample_layer 1 [[1, 0], [0, 1]] [[0, 0], [1, 1]]"] i g n
    by simp
qed

subsection \<open>The size argument of the down-projection scale permutation\<close>

text \<open>
  C5. When the mixture-of-experts finalize step returns, the down-projection scales it
  leaves are the result of the scale permutation called on the loaded scales with
  \<^verbatim>\<open>size_k\<close> equal to the scale row count times the group size when the group size
  is positive, and times the pack factor when the group size is \<open>-1\<close>. In the
  channel-wise case \<^verbatim>\<open>create_weights\<close> gives every expert's down-projection
  scales exactly one row, so \<^verbatim>\<open>size_k\<close> is the pack factor.
\<close>

theorem C5_w2_scales_size_k:
  "(process_weights_after_loading ops cfg layer = Inr layer' \<longrightarrow>
      2 < length (tensor_shape (w2_scales layer)) \<and>
      marlin_moe_permute_scales ops (w2_scales layer)
        (w2_scales_size_k cfg (tensor_shape (w2_scales layer) ! 1))
        (tensor_shape (w2_scales layer) ! 2) (group_size cfg) = Inr (w2_scales layer')) \<and>
   (0 < group_size cfg \<longrightarrow> w2_scales_size_k cfg scale_rows = scale_rows * group_size cfg) \<and>
   (group_size cfg = - 1 \<longrightarrow> w2_scales_size_k cfg scale_rows = scale_rows * pack_factor cfg) \<and>
   (group_size cfg = - 1 \<and> moe_create_weights cfg E hidden isp dt mfull = Inr P \<longrightarrow>
      moe_shape (w2_scales_param P) = [E, 1, hidden] \<and>
      w2_scales_size_k cfg (moe_shape (w2_scales_param P) ! 1) = pack_factor cfg)"
proof -
  have a: "process_weights_after_loading ops cfg layer = Inr layer' \<longrightarrow>
      2 < length (tensor_shape (w2_scales layer)) \<and>
      marlin_moe_permute_scales ops (w2_scales layer)
        (w2_scales_size_k cfg (tensor_shape (w2_scales layer) ! 1))
        (tensor_shape (w2_scales layer) ! 2) (group_size cfg) = Inr (w2_scales layer')"
  proof
    assume "process_weights_after_loading ops cfg layer = Inr layer'"
    from process_weights_after_loading_Inr [OF this] obtain l1 q13 q2 s13 s2 where
      p: "process_act_order ops cfg layer = Inr l1"
      and n: "2 < length (tensor_shape (w2_scales l1))"
      and m: "marlin_moe_permute_scales ops (w2_scales l1)
          (w2_scales_size_k cfg (tensor_shape (w2_scales l1) ! 1))
          (tensor_shape (w2_scales l1) ! 2) (group_size cfg) = Inr s2"
      and l: "layer' = l1\<lparr>w13_qweight := q13, w2_qweight := q2, w13_scales := s13,
                w2_scales := s2\<rparr>"
      by blast
    from process_act_order_frame [OF p] have "w2_scales l1 = w2_scales layer" by simp
    with n m l show "2 < length (tensor_shape (w2_scales layer)) \<and>
      marlin_moe_permute_scales ops (w2_scales layer)
        (w2_scales_size_k cfg (tensor_shape (w2_scales layer) ! 1))
        (tensor_shape (w2_scales layer) ! 2) (group_size cfg) = Inr (w2_scales layer')"
      by simp
  qed
  have b: "0 < group_size cfg \<longrightarrow> w2_scales_size_k cfg scale_rows = scale_rows * group_size cfg"
    by (simp add: w2_scales_size_k_def)
  have c: "group_size cfg = - 1 \<longrightarrow>
      w2_scales_size_k cfg scale_rows = scale_rows * pack_factor cfg"
    by (simp add: w2_scales_size_k_def)
  have d: "group_size cfg = - 1 \<and> moe_create_weights cfg E hidden isp dt mfull = Inr P \<longrightarrow>
      moe_shape (w2_scales_param P) = [E, 1, hidden] \<and>
      w2_scales_size_k cfg (moe_shape (w2_scales_param P) ! 1) = pack_factor cfg"
    using moe_create_weights_Inr [of cfg E hidden isp dt mfull P]
    by (auto simp: moe_scales_sizes_Inr w2_scales_size_k_def)
  show ?thesis by (intro conjI a b c d)
qed

theorem C5_w2_scales_size_k_witness:
  "map_sum id w2_scales
     (process_weights_after_loading sample_ops (sample_config (- 1) False)
        (sample_layer 1 [[1, 0], [0, 1]] [[0, 0], [1, 1]])) =
     Inr \<lparr>tensor_shape = [2, 1, 8], tensor_data = [8, 8, - 1]\<rparr> \<and>
   map_sum id w2_scales
     (process_weights_after_loading sample_ops (sample_config 4 False)
        (sample_layer 2 [[1, 0], [0, 1]] [[0, 0], [1, 1]])) =
     Inr \<lparr>tensor_shape = [2, 2, 8], tensor_data = [8, 8, 4]\<rparr> \<and>
   map_sum id (\<lambda>P. moe_shape (w2_scales_param P))
     (moe_create_weights (sample_config (- 1) False) 8 2048 512 torch_half (Some 1024)) =
     Inr [8, 1, 2048]"
proof -
  obtain l1 where l1: "process_weights_after_loading sample_ops (sample_config (- 1) False)
        (sample_layer 1 [[1, 0], [0, 1]] [[0, 0], [1, 1]]) = Inr l1"
    by (simp add: process_weights_after_loading_def process_act_order_def sample_ops_def
        sample_config_def sample_layer_def shape_at_def Let_def)
  obtain l2 where l2: "process_weights_after_loading sample_ops (sample_config 4 False)
        (sample_layer 2 [[1, 0], [0, 1]] [[0, 0], [1, 1]]) = Inr l2"
    by (simp add: process_weights_after_loading_def process_act_order_def sample_ops_def
        sample_config_def sample_layer_def shape_at_def Let_def)
  obtain P where p: "moe_create_weights (sample_config (- 1) False) 8 2048 512 torch_half
        (Some 1024) = Inr P"
    by (simp add: moe_create_weights_def moe_scales_sizes_def sample_config_def floordiv_def
        torch_empty_def Let_def)
  have g: "group_size (sample_config (- 1) False) = - 1" "group_size (sample_config 4 False) = 4"
    "pack_factor (sample_config (- 1) False) = 8"
    by (simp_all add: sample_config_def)
  have s: "w2_scales (sample_layer 1 [[1, 0], [0, 1]] [[0, 0], [1, 1]]) =
             \<lparr>tensor_shape = [2, 1, 8], tensor_data = []\<rparr>"
    "w2_scales (sample_layer 2 [[1, 0], [0, 1]] [[0, 0], [1, 1]]) =
             \<lparr>tensor_shape = [2, 2, 8], tensor_data = []\<rparr>"
    by (simp_all add: sample_layer_def)
  show ?thesis
    using C5_w2_scales_size_k [where ops = sample_ops and cfg = "sample_config (- 1) False"
        and layer = "sample_layer 1 [[1, 0], [0, 1]] [[0, 0], [1, 1]]" and layer' = l1
        and scale_rows = 1 and E = 8 and hidden = 2048 and isp = 512 and dt = torch_half
        and mfull = "Some 1024" and P = P]
      C5_w2_scales_size_k [where ops = sample_ops and cfg = "sample_config 4 False"
        and layer = "sample_layer 2 [[1, 0], [0, 1]] [[0, 0], [1, 1]]" and layer' = l2
        and scale_rows = 2]
      l1 l2 p g s
    by (simp add: sample_ops_def w2_scales_size_k_def)
qed

subsection \<open>Index tensors without activation-order\<close>

text \<open>
  C6. With activation-order disabled, the mixture-of-experts finalize step replaces the two
  \<^verbatim>\<open>g_idx\<close> tensors and the two sort-index tensors by tensors of shape
  (number of experts, 0): one empty row per expert. This holds after the activation-order
  step and for the layer that the whole finalize step returns.
\<close>

theorem C6_disabled_act_order_resets_indices:
  "\<not> desc_act cfg \<Longrightarrow>
     process_act_order ops cfg layer =
       Inr (layer\<lparr>w13_g_idx := replicate (length (w13_g_idx layer)) [],
                  w2_g_idx := replicate (length (w13_g_idx layer)) [],
                  w13_g_idx_sort_indices := replicate (length (w13_g_idx layer)) [],
                  w2_g_idx_sort_indices := replicate (length (w13_g_idx layer)) []\<rparr>) \<and>
     (process_weights_after_loading ops cfg layer = Inr layer' \<longrightarrow>
        w13_g_idx layer' = replicate (length (w13_g_idx layer)) [] \<and>
        w2_g_idx layer' = replicate (length (w13_g_idx layer)) [] \<and>
        w13_g_idx_sort_indices layer' = replicate (length (w13_g_idx layer)) [] \<and>
        w2_g_idx_sort_indices layer' = replicate (length (w13_g_idx layer)) [])"
proof -
  assume nd: "\<not> desc_act cfg"
  have a: "process_act_order ops cfg layer =
       Inr (layer\<lparr>w13_g_idx := replicate (length (w13_g_idx layer)) [],
                  w2_g_idx := replicate (length (w13_g_idx layer)) [],
                  w13_g_idx_sort_indices := replicate (length (w13_g_idx layer)) [],
                  w2_g_idx_sort_indices := replicate (length (w13_g_idx layer)) []\<rparr>)"
    by (rule process_act_order_disabled [OF nd])
  have b: "process_weights_after_loading ops cfg layer = Inr layer' \<longrightarrow>
        w13_g_idx layer' = replicate (length (w13_g_idx layer)) [] \<and>
        w2_g_idx layer' = replicate (length (w13_g_idx layer)) [] \<and>
        w13_g_idx_sort_indices layer' = replicate (length (w13_g_idx layer)) [] \<and>
        w2_g_idx_sort_indices layer' = replicate (length (w13_g_idx layer)) []"
  proof
    assume "process_weights_after_loading ops cfg layer = Inr layer'"
    from process_weights_after_loading_Inr [OF this] obtain l1 q13 q2 s13 s2 where
      p: "process_act_order ops cfg layer = Inr l1"
      and l: "layer' = l1\<lparr>w13_qweight := q13, w2_qweight := q2, w13_scales := s13,
                w2_scales := s2\<rparr>"
      by blast
    from p a l show "w13_g_idx layer' = replicate (length (w13_g_idx layer)) [] \<and>
        w2_g_idx layer' = replicate (length (w13_g_idx layer)) [] \<and>
        w13_g_idx_sort_indices layer' = replicate (length (w13_g_idx layer)) [] \<and>
        w2_g_idx_sort_indices layer' = replicate (length (w13_g_idx layer)) []"
      by auto
  qed
  show ?thesis by (intro conjI a b)
qed

theorem C6_disabled_act_order_resets_indices_witness:
  "\<not> desc_act (sample_config 4 False) \<and>
   process_weights_after_loading sample_ops (sample_config 4 False)
       (sample_layer 2 [[1, 0], [0, 1]] [[0, 0], [1, 1]]) =
     Inr \<lparr>w13_qweight = \<lparr>tensor_shape = [2, 1, 16], tensor_data = [8, 16, 4]\<rparr>,
          w2_qweight = \<lparr>tensor_shape = [2, 1, 8], tensor_data = [8, 8, 4]\<rparr>,
          w13_scales = \<lparr>tensor_shape = [2, 2, 16], tensor_data = [8, 16, 4]\<rparr>,
          w2_scales = \<lparr>tensor_shape = [2, 2, 8], tensor_data = [8, 8, 4]\<rparr>,
          w13_g_idx = [[], []], w2_g_idx = [[], []],
          w13_g_idx_sort_indices = [[], []], w2_g_idx_sort_indices = [[], []],
          intermediate_size_per_partition = 8\<rparr>"
proof -
  have nd: "\<not> desc_act (sample_config 4 False)"
    by (simp add: sample_config_def)
  have n: "length (w13_g_idx (sample_layer 2 [[1, 0], [0, 1]] [[0, 0], [1, 1]])) = 2"
    by (simp add: sample_layer_def)
  have p: "process_act_order sample_ops (sample_config 4 False)
       (sample_layer 2 [[1, 0], [0, 1]] [[0, 0], [1, 1]]) =
     Inr ((sample_layer 2 [[1, 0], [0, 1]] [[0, 0], [1, 1]])
            \<lparr>w13_g_idx := [[], []], w2_g_idx := [[], []],
             w13_g_idx_sort_indices := [[], []], w2_g_idx_sort_indices := [[], []]\<rparr>)"
    using C6_disabled_act_order_resets_indices [OF nd, where ops = sample_ops
        and layer = "sample_layer 2 [[1, 0], [0, 1]] [[0, 0], [1, 1]]"]
    by (simp add: n numeral_2_eq_2)
  show ?thesis
    unfolding process_weights_after_loading_def p
    by (simp add: sample_ops_def sample_config_def sample_layer_def shape_at_def
        w2_scales_size_k_def uint4b8_def)
qed

subsection \<open>Unsupported requests at apply time\<close>

text \<open>
  C8. A mixture-of-experts \<^verbatim>\<open>apply\<close> call with \<^verbatim>\<open>enable_eplb\<close> set raises
  \<open>NotImplementedError\<close>, and a call with an activation other than \<^verbatim>\<open>silu\<close>
  fails its assertion; in both cases no external call (routing or kernel) has been made.
\<close>

theorem C8_apply_rejects_unsupported:
  "(enable_eplb args \<longrightarrow>
      moe_apply select_experts fused_marlin_moe self k_full layer args =
        ([], Inl NotImplementedError)) \<and>
   (\<not> enable_eplb args \<and> activation args \<noteq> ''silu'' \<longrightarrow>
      moe_apply select_experts fused_marlin_moe self k_full layer args =
        ([], Inl AssertionError)) \<and>
   (enable_eplb args \<or> activation args \<noteq> ''silu'' \<longrightarrow>
      (\<exists>err. moe_apply select_experts fused_marlin_moe self k_full layer args =
         ([], Inl err)))"
  by (simp add: moe_apply_def)

theorem C8_apply_rejects_unsupported_witness:
  "moe_apply (\<lambda>a. Inr ()) (\<lambda>l a r q k. Inr (0 :: int)) sample_method True
       (sample_layer 2 [[1, 0], [0, 1]] [[0, 0], [1, 1]]) (sample_apply_args ''silu'' True) =
     ([], Inl NotImplementedError) \<and>
   moe_apply (\<lambda>a. Inr ()) (\<lambda>l a r q k. Inr (0 :: int)) sample_method True
       (sample_layer 2 [[1, 0], [0, 1]] [[0, 0], [1, 1]]) (sample_apply_args ''gelu'' False) =
     ([], Inl AssertionError)"
  using C8_apply_rejects_unsupported [where args = "sample_apply_args ''silu'' True"
      and select_experts = "\<lambda>a. Inr ()" and fused_marlin_moe = "\<lambda>l a r q k. Inr (0 :: int)"
      and self = sample_method and k_full = True
      and layer = "sample_layer 2 [[1, 0], [0, 1]] [[0, 0], [1, 1]]"]
    C8_apply_rejects_unsupported [where args = "sample_apply_args ''gelu'' False"
      and select_experts = "\<lambda>a. Inr ()" and fused_marlin_moe = "\<lambda>l a r q k. Inr (0 :: int)"
      and self = sample_method and k_full = True
      and layer = "sample_layer 2 [[1, 0], [0, 1]] [[0, 0], [1, 1]]"]
  by (simp add: sample_apply_args_def)

subsection \<open>Sorting permutations and the activation-order loop\<close>

lemma is_argsort_set: "is_argsort row p \<Longrightarrow> set p = {0..<length row}"
proof -
  assume "is_argsort row p"
  then have "sort p = [0..<length row]" by (simp add: is_argsort_def)
  then have "set (sort p) = set [0..<length row]" by simp
  then show ?thesis by simp
qed

lemma is_argsort_length: "is_argsort row p \<Longrightarrow> length p = length row"
proof -
  assume "is_argsort row p"
  then have "sort p = [0..<length row]" by (simp add: is_argsort_def)
  then have "length (sort p) = length [0..<length row]" by simp
  then show ?thesis by simp
qed

lemma is_argsort_distinct: "is_argsort row p \<Longrightarrow> distinct p"
proof -
  assume "is_argsort row p"
  then have "sort p = [0..<length row]" by (simp add: is_argsort_def)
  then have "distinct (sort p)" by simp
  then show ?thesis by simp
qed

lemma is_argsort_sorted: "is_argsort row p \<Longrightarrow> sorted (map (\<lambda>i. row ! i) p)"
  by (simp add: is_argsort_def)

lemma stable_argsort_is_argsort: "is_argsort row (stable_argsort row)"
proof -
  have "sort (sort_key (\<lambda>i. row ! i) [0..<length row]) = [0..<length row]"
    by (rule sorted_distinct_set_unique) simp_all
  then show ?thesis
    by (simp add: is_argsort_def stable_argsort_def)
qed

lemma position_of_nth:
  "j \<in> set p \<Longrightarrow> position_of j p < length p \<and> p ! position_of j p = j"
  by (induction p) auto

lemma inverse_permutation_restores:
  assumes "is_argsort row p"
  shows "map (\<lambda>j. map (\<lambda>i. row ! i) p ! j) (inverse_permutation p) = row"
proof (rule nth_equalityI)
  show "length (map (\<lambda>j. map (\<lambda>i. row ! i) p ! j) (inverse_permutation p)) = length row"
    using is_argsort_length [OF assms] by (simp add: inverse_permutation_def)
next
  fix j
  assume "j < length (map (\<lambda>j. map (\<lambda>i. row ! i) p ! j) (inverse_permutation p))"
  then have j: "j < length p"
    by (simp add: inverse_permutation_def)
  then have "j \<in> set p"
    using is_argsort_set [OF assms] is_argsort_length [OF assms] by simp
  from position_of_nth [OF this] j
  show "map (\<lambda>j. map (\<lambda>i. row ! i) p ! j) (inverse_permutation p) ! j = row ! j"
    by (simp add: inverse_permutation_def)
qed

lemma is_argsort_unique:
  assumes p: "is_argsort row p" and q: "is_argsort row q" and d: "distinct row"
  shows "p = q"
proof -
  have inj: "inj_on (\<lambda>i. row ! i) {0..<length row}"
    using d by (auto simp: inj_on_def nth_eq_iff_index_eq)
  have dp: "distinct (map (\<lambda>i. row ! i) p)"
    using inj is_argsort_set [OF p] is_argsort_distinct [OF p] by (simp add: distinct_map)
  have dq: "distinct (map (\<lambda>i. row ! i) q)"
    using inj is_argsort_set [OF q] is_argsort_distinct [OF q] by (simp add: distinct_map)
  have "set (map (\<lambda>i. row ! i) p) = set (map (\<lambda>i. row ! i) q)"
    using is_argsort_set [OF p] is_argsort_set [OF q] by simp
  then have "map (\<lambda>i. row ! i) p = map (\<lambda>i. row ! i) q"
    using sorted_distinct_set_unique [OF is_argsort_sorted [OF p] dp is_argsort_sorted [OF q] dq]
    by simp
  moreover have "inj_on (\<lambda>i. row ! i) (set p \<union> set q)"
    using inj is_argsort_set [OF p] is_argsort_set [OF q] by simp
  ultimately show ?thesis
    by (simp add: inj_on_map_eq_map)
qed

lemma tensor_index_argsort:
  assumes "is_argsort row p"
  shows "tensor_index row (map int p) = Inr (map (\<lambda>i. row ! i) p)"
proof -
  have "\<forall>i\<in>set p. i < length row"
    using is_argsort_set [OF assms] by simp
  then show ?thesis
    by (simp add: tensor_index_def list_all_iff)
qed

lemma set_row_same_length:
  "e < length buf \<Longrightarrow> length v = length (buf ! e) \<Longrightarrow> set_row buf e v = Inr (buf[e := v])"
  by (simp add: set_row_def)

lemma get_row_Inr: "e < length t \<Longrightarrow> get_row t e = Inr (t ! e)"
  by (simp add: get_row_def)

lemma map_length_update:
  "map length buf = map length g \<Longrightarrow> length v = length (g ! e) \<Longrightarrow>
   map length (buf[e := v]) = map length g"
  by (metis list_update_id map_update)

lemma map_length_nth:
  "map length buf = map length g \<Longrightarrow> e < length g \<Longrightarrow>
   e < length buf \<and> length (buf ! e) = length (g ! e)"
  by (metis length_map nth_map)

lemma torch_empty_like_shape: "map length (torch_empty_like u t) = map length t"
  by (rule nth_equalityI) (simp_all add: torch_empty_like_def)


lemma act_order_step_ok:
  assumes e13: "e < length g13" and e2: "e < length g2"
    and a13: "is_argsort (g13 ! e) (srt (g13 ! e))"
    and a2: "is_argsort (g2 ! e) (srt (g2 ! e))"
    and s1: "map length si13 = map length g13" and s2: "map length si2 = map length g2"
    and s3: "map length sg13 = map length g13" and s4: "map length sg2 = map length g2"
  shows "act_order_step srt g13 g2 e (si13, si2, sg13, sg2) =
     Inr (si13[e := map int (srt (g13 ! e))], si2[e := map int (srt (g2 ! e))],
          sg13[e := map (\<lambda>i. g13 ! e ! i) (srt (g13 ! e))],
          sg2[e := map (\<lambda>i. g2 ! e ! i) (srt (g2 ! e))])"
proof -
  note l13 = is_argsort_length [OF a13] and l2 = is_argsort_length [OF a2]
  note n1 = map_length_nth [OF s1 e13] and n2 = map_length_nth [OF s2 e2]
    and n3 = map_length_nth [OF s3 e13] and n4 = map_length_nth [OF s4 e2]
  have r1: "set_row si13 e (map int (srt (g13 ! e))) = Inr (si13[e := map int (srt (g13 ! e))])"
    using n1 l13 by (simp add: set_row_same_length)
  have r2: "set_row si2 e (map int (srt (g2 ! e))) = Inr (si2[e := map int (srt (g2 ! e))])"
    using n2 l2 by (simp add: set_row_same_length)
  have r3: "set_row sg13 e (map (\<lambda>i. g13 ! e ! i) (srt (g13 ! e))) =
              Inr (sg13[e := map (\<lambda>i. g13 ! e ! i) (srt (g13 ! e))])"
    using n3 l13 by (simp add: set_row_same_length)
  have r4: "set_row sg2 e (map (\<lambda>i. g2 ! e ! i) (srt (g2 ! e))) =
              Inr (sg2[e := map (\<lambda>i. g2 ! e ! i) (srt (g2 ! e))])"
    using n4 l2 by (simp add: set_row_same_length)
  have g1: "get_row (si13[e := map int (srt (g13 ! e))]) e = Inr (map int (srt (g13 ! e)))"
    using n1 by (simp add: get_row_def)
  have g2: "get_row (si2[e := map int (srt (g2 ! e))]) e = Inr (map int (srt (g2 ! e)))"
    using n2 by (simp add: get_row_def)
  show ?thesis
    by (simp add: act_order_step_def get_row_Inr [OF e13] get_row_Inr [OF e2] r1 r2 g1 g2
        tensor_index_argsort [OF a13] tensor_index_argsort [OF a2] r3 r4)
qed

lemma act_order_loop_ok:
  assumes "\<forall>e\<in>set es. e < length g13 \<and> e < length g2 \<and>
             is_argsort (g13 ! e) (srt (g13 ! e)) \<and> is_argsort (g2 ! e) (srt (g2 ! e))"
    and "map length si13 = map length g13" and "map length si2 = map length g2"
    and "map length sg13 = map length g13" and "map length sg2 = map length g2"
  shows "\<exists>si13' si2' sg13' sg2'.
     act_order_loop srt g13 g2 es (si13, si2, sg13, sg2) = Inr (si13', si2', sg13', sg2') \<and>
     map length si13' = map length g13 \<and> map length si2' = map length g2 \<and>
     map length sg13' = map length g13 \<and> map length sg2' = map length g2 \<and>
     (\<forall>e. si13' ! e = (if e \<in> set es then map int (srt (g13 ! e)) else si13 ! e)) \<and>
     (\<forall>e. si2' ! e = (if e \<in> set es then map int (srt (g2 ! e)) else si2 ! e)) \<and>
     (\<forall>e. sg13' ! e =
        (if e \<in> set es then map (\<lambda>i. g13 ! e ! i) (srt (g13 ! e)) else sg13 ! e)) \<and>
     (\<forall>e. sg2' ! e =
        (if e \<in> set es then map (\<lambda>i. g2 ! e ! i) (srt (g2 ! e)) else sg2 ! e))"
  using assms
proof (induction es arbitrary: si13 si2 sg13 sg2)
  case Nil
  then show ?case by simp
next
  case (Cons x es)
  from Cons.prems(1) have x: "x < length g13" "x < length g2"
    "is_argsort (g13 ! x) (srt (g13 ! x))" "is_argsort (g2 ! x) (srt (g2 ! x))"
    by simp_all
  note st = act_order_step_ok [OF x Cons.prems(2-5)]
  note l13 = is_argsort_length [OF x(3)] and l2 = is_argsort_length [OF x(4)]
  have sh: "map length (si13[x := map int (srt (g13 ! x))]) = map length g13"
    "map length (si2[x := map int (srt (g2 ! x))]) = map length g2"
    "map length (sg13[x := map (\<lambda>i. g13 ! x ! i) (srt (g13 ! x))]) = map length g13"
    "map length (sg2[x := map (\<lambda>i. g2 ! x ! i) (srt (g2 ! x))]) = map length g2"
    using Cons.prems(2-5) l13 l2 by (simp_all add: map_length_update)
  from Cons.prems(1) have rest: "\<forall>e\<in>set es. e < length g13 \<and> e < length g2 \<and>
             is_argsort (g13 ! e) (srt (g13 ! e)) \<and> is_argsort (g2 ! e) (srt (g2 ! e))"
    by simp
  from Cons.IH [OF rest sh] obtain si13' si2' sg13' sg2' where
    r: "act_order_loop srt g13 g2 es
          (si13[x := map int (srt (g13 ! x))], si2[x := map int (srt (g2 ! x))],
           sg13[x := map (\<lambda>i. g13 ! x ! i) (srt (g13 ! x))],
           sg2[x := map (\<lambda>i. g2 ! x ! i) (srt (g2 ! x))]) = Inr (si13', si2', sg13', sg2')"
    and s: "map length si13' = map length g13" "map length si2' = map length g2"
      "map length sg13' = map length g13" "map length sg2' = map length g2"
    and v1: "\<forall>e. si13' ! e = (if e \<in> set es then map int (srt (g13 ! e))
                else si13[x := map int (srt (g13 ! x))] ! e)"
    and v2: "\<forall>e. si2' ! e = (if e \<in> set es then map int (srt (g2 ! e))
                else si2[x := map int (srt (g2 ! x))] ! e)"
    and v3: "\<forall>e. sg13' ! e = (if e \<in> set es then map (\<lambda>i. g13 ! e ! i) (srt (g13 ! e))
                else sg13[x := map (\<lambda>i. g13 ! x ! i) (srt (g13 ! x))] ! e)"
    and v4: "\<forall>e. sg2' ! e = (if e \<in> set es then map (\<lambda>i. g2 ! e ! i) (srt (g2 ! e))
                else sg2[x := map (\<lambda>i. g2 ! x ! i) (srt (g2 ! x))] ! e)"
    by blast
  note n1 = map_length_nth [OF Cons.prems(2) x(1)] and n2 = map_length_nth [OF Cons.prems(3) x(2)]
    and n3 = map_length_nth [OF Cons.prems(4) x(1)] and n4 = map_length_nth [OF Cons.prems(5) x(2)]
  have w1: "\<forall>e. si13' ! e = (if e \<in> set (x # es) then map int (srt (g13 ! e)) else si13 ! e)"
    using v1 n1 by (auto simp: nth_list_update)
  have w2: "\<forall>e. si2' ! e = (if e \<in> set (x # es) then map int (srt (g2 ! e)) else si2 ! e)"
    using v2 n2 by (auto simp: nth_list_update)
  have w3: "\<forall>e. sg13' ! e =
      (if e \<in> set (x # es) then map (\<lambda>i. g13 ! e ! i) (srt (g13 ! e)) else sg13 ! e)"
    using v3 n3 by (auto simp: nth_list_update)
  have w4: "\<forall>e. sg2' ! e =
      (if e \<in> set (x # es) then map (\<lambda>i. g2 ! e ! i) (srt (g2 ! e)) else sg2 ! e)"
    using v4 n4 by (auto simp: nth_list_update)
  have "act_order_loop srt g13 g2 (x # es) (si13, si2, sg13, sg2) =
          Inr (si13', si2', sg13', sg2')"
    by (simp add: st r)
  with s w1 w2 w3 w4 show ?case by blast
qed

lemma process_act_order_enabled:
  assumes da: "desc_act cfg"
    and srt: "\<forall>row. is_argsort row (argsort ops row)"
    and len: "length (w13_g_idx layer) \<le> length (w2_g_idx layer)"
  shows "\<exists>si13 si2 sg13 sg2.
     process_act_order ops cfg layer =
       Inr (layer\<lparr>w13_g_idx := sg13, w2_g_idx := sg2, w13_g_idx_sort_indices := si13,
                  w2_g_idx_sort_indices := si2\<rparr>) \<and>
     map length si13 = map length (w13_g_idx layer) \<and>
     map length si2 = map length (w2_g_idx layer) \<and>
     map length sg13 = map length (w13_g_idx layer) \<and>
     map length sg2 = map length (w2_g_idx layer) \<and>
     (\<forall>e<length (w13_g_idx layer).
        si13 ! e = map int (argsort ops (w13_g_idx layer ! e)) \<and>
        si2 ! e = map int (argsort ops (w2_g_idx layer ! e)) \<and>
        sg13 ! e = map (\<lambda>i. w13_g_idx layer ! e ! i) (argsort ops (w13_g_idx layer ! e)) \<and>
        sg2 ! e = map (\<lambda>i. w2_g_idx layer ! e ! i) (argsort ops (w2_g_idx layer ! e)))"
proof -
  have pre: "\<forall>e\<in>set [0..<length (w13_g_idx layer)].
      e < length (w13_g_idx layer) \<and> e < length (w2_g_idx layer) \<and>
      is_argsort (w13_g_idx layer ! e) (argsort ops (w13_g_idx layer ! e)) \<and>
      is_argsort (w2_g_idx layer ! e) (argsort ops (w2_g_idx layer ! e))"
    using srt len by simp
  from act_order_loop_ok [OF pre torch_empty_like_shape torch_empty_like_shape
      torch_empty_like_shape torch_empty_like_shape,
      of "uninit ops 0" "uninit ops 1" "uninit ops 2" "uninit ops 3"]
  obtain si13 si2 sg13 sg2 where
    r: "act_order_loop (argsort ops) (w13_g_idx layer) (w2_g_idx layer)
          [0..<length (w13_g_idx layer)]
          (torch_empty_like (uninit ops 0) (w13_g_idx layer),
           torch_empty_like (uninit ops 1) (w2_g_idx layer),
           torch_empty_like (uninit ops 2) (w13_g_idx layer),
           torch_empty_like (uninit ops 3) (w2_g_idx layer)) = Inr (si13, si2, sg13, sg2)"
    and s: "map length si13 = map length (w13_g_idx layer)"
      "map length si2 = map length (w2_g_idx layer)"
      "map length sg13 = map length (w13_g_idx layer)"
      "map length sg2 = map length (w2_g_idx layer)"
    and v: "\<forall>e. si13 ! e = (if e \<in> set [0..<length (w13_g_idx layer)]
               then map int (argsort ops (w13_g_idx layer ! e))
               else torch_empty_like (uninit ops 0) (w13_g_idx layer) ! e)"
      "\<forall>e. si2 ! e = (if e \<in> set [0..<length (w13_g_idx layer)]
               then map int (argsort ops (w2_g_idx layer ! e))
               else torch_empty_like (uninit ops 1) (w2_g_idx layer) ! e)"
      "\<forall>e. sg13 ! e = (if e \<in> set [0..<length (w13_g_idx layer)]
               then map (\<lambda>i. w13_g_idx layer ! e ! i) (argsort ops (w13_g_idx layer ! e))
               else torch_empty_like (uninit ops 2) (w13_g_idx layer) ! e)"
      "\<forall>e. sg2 ! e = (if e \<in> set [0..<length (w13_g_idx layer)]
               then map (\<lambda>i. w2_g_idx layer ! e ! i) (argsort ops (w2_g_idx layer ! e))
               else torch_empty_like (uninit ops 3) (w2_g_idx layer) ! e)"
    by blast
  have p: "process_act_order ops cfg layer =
       Inr (layer\<lparr>w13_g_idx := sg13, w2_g_idx := sg2, w13_g_idx_sort_indices := si13,
                  w2_g_idx_sort_indices := si2\<rparr>)"
    using da unfolding process_act_order_def Let_def r by simp
  have "\<forall>e<length (w13_g_idx layer).
        si13 ! e = map int (argsort ops (w13_g_idx layer ! e)) \<and>
        si2 ! e = map int (argsort ops (w2_g_idx layer ! e)) \<and>
        sg13 ! e = map (\<lambda>i. w13_g_idx layer ! e ! i) (argsort ops (w13_g_idx layer ! e)) \<and>
        sg2 ! e = map (\<lambda>i. w2_g_idx layer ! e ! i) (argsort ops (w2_g_idx layer ! e))"
    using v by simp
  with p s show ?thesis by blast
qed


lemma rows_eq_map:
  assumes "map length buf = map length g" and "\<forall>e<length g. buf ! e = f (g ! e)"
  shows "buf = map f g"
proof (rule nth_equalityI)
  from assms(1) have "length (map length buf) = length (map length g)" by simp
  then show "length buf = length (map f g)" by simp
next
  fix e
  assume "e < length buf"
  moreover from assms(1) have "length (map length buf) = length (map length g)" by simp
  ultimately have "e < length g" by simp
  with assms(2) show "buf ! e = map f g ! e" by simp
qed

lemma process_act_order_enabled_eq:
  assumes da: "desc_act cfg"
    and srt: "\<forall>row. is_argsort row (argsort ops row)"
    and len: "length (w13_g_idx layer) = length (w2_g_idx layer)"
  shows "process_act_order ops cfg layer =
     Inr (layer\<lparr>w13_g_idx := map (\<lambda>row. map (\<lambda>i. row ! i) (argsort ops row)) (w13_g_idx layer),
                w2_g_idx := map (\<lambda>row. map (\<lambda>i. row ! i) (argsort ops row)) (w2_g_idx layer),
                w13_g_idx_sort_indices :=
                  map (\<lambda>row. map int (argsort ops row)) (w13_g_idx layer),
                w2_g_idx_sort_indices :=
                  map (\<lambda>row. map int (argsort ops row)) (w2_g_idx layer)\<rparr>)"
proof -
  from len have le: "length (w13_g_idx layer) \<le> length (w2_g_idx layer)" by simp
  from process_act_order_enabled [OF da srt le] obtain si13 si2 sg13 sg2 where
    p: "process_act_order ops cfg layer =
       Inr (layer\<lparr>w13_g_idx := sg13, w2_g_idx := sg2, w13_g_idx_sort_indices := si13,
                  w2_g_idx_sort_indices := si2\<rparr>)"
    and s: "map length si13 = map length (w13_g_idx layer)"
      "map length si2 = map length (w2_g_idx layer)"
      "map length sg13 = map length (w13_g_idx layer)"
      "map length sg2 = map length (w2_g_idx layer)"
    and v: "\<forall>e<length (w13_g_idx layer).
        si13 ! e = map int (argsort ops (w13_g_idx layer ! e)) \<and>
        si2 ! e = map int (argsort ops (w2_g_idx layer ! e)) \<and>
        sg13 ! e = map (\<lambda>i. w13_g_idx layer ! e ! i) (argsort ops (w13_g_idx layer ! e)) \<and>
        sg2 ! e = map (\<lambda>i. w2_g_idx layer ! e ! i) (argsort ops (w2_g_idx layer ! e))"
    by blast
  have "si13 = map (\<lambda>row. map int (argsort ops row)) (w13_g_idx layer)"
    by (rule rows_eq_map [OF s(1)]) (use v in simp)
  moreover have "si2 = map (\<lambda>row. map int (argsort ops row)) (w2_g_idx layer)"
    by (rule rows_eq_map [OF s(2)]) (use v len in simp)
  moreover have "sg13 = map (\<lambda>row. map (\<lambda>i. row ! i) (argsort ops row)) (w13_g_idx layer)"
    by (rule rows_eq_map [OF s(3)]) (use v in simp)
  moreover have "sg2 = map (\<lambda>row. map (\<lambda>i. row ! i) (argsort ops row)) (w2_g_idx layer)"
    by (rule rows_eq_map [OF s(4)]) (use v len in simp)
  ultimately show ?thesis using p by simp
qed

lemma argsort_ties_descending_is_argsort: "is_argsort row (argsort_ties_descending row)"
proof -
  have "sort (rev (sort_key (\<lambda>i. - (row ! i)) [0..<length row])) = [0..<length row]"
    by (rule sorted_distinct_set_unique) simp_all
  moreover have "sorted (map (\<lambda>i. row ! i) (rev (sort_key (\<lambda>i. - (row ! i)) [0..<length row])))"
  proof -
    have "sorted (map (\<lambda>i. - (row ! i)) (sort_key (\<lambda>i. - (row ! i)) [0..<length row]))"
      by simp
    then show ?thesis
      by (simp add: sorted_map sorted_wrt_rev)
  qed
  ultimately show ?thesis
    by (simp add: is_argsort_def argsort_ties_descending_def)
qed

lemma process_weights_after_loading_total:
  assumes p: "process_act_order ops cfg L = Inr L1"
    and dims: "2 < length (tensor_shape (w13_qweight L))"
      "2 < length (tensor_shape (w2_qweight L))"
      "2 < length (tensor_shape (w13_scales L))"
      "2 < length (tensor_shape (w2_scales L))"
    and repack: "\<forall>t idx k n b. 2 < length (tensor_shape t) \<longrightarrow>
                   (\<exists>t'. gptq_marlin_moe_repack ops t idx k n b = Inr t')"
    and permute: "\<forall>t k n g. 2 < length (tensor_shape t) \<longrightarrow>
                   (\<exists>t'. marlin_moe_permute_scales ops t k n g = Inr t')"
  shows "\<exists>L'. process_weights_after_loading ops cfg L = Inr L'"
proof -
  note fr = process_act_order_frame [OF p]
  from repack dims(1) obtain q13 where q13:
    "gptq_marlin_moe_repack ops (w13_qweight L) (w13_g_idx_sort_indices L1)
       (tensor_shape (w13_qweight L) ! Suc 0 * pack_factor cfg) (tensor_shape (w13_qweight L) ! 2)
       (size_bits (quant_type cfg)) = Inr q13"
    by blast
  from repack dims(2) obtain q2 where q2:
    "gptq_marlin_moe_repack ops (w2_qweight L) (w2_g_idx_sort_indices L1)
       (tensor_shape (w2_qweight L) ! Suc 0 * pack_factor cfg) (tensor_shape (w2_qweight L) ! 2)
       (size_bits (quant_type cfg)) = Inr q2"
    by blast
  from permute dims(3) obtain s13 where s13:
    "marlin_moe_permute_scales ops (w13_scales L) (intermediate_size_per_partition L)
       (tensor_shape (w13_scales L) ! 2) (group_size cfg) = Inr s13"
    by blast
  from permute dims(4) obtain s2 where s2:
    "marlin_moe_permute_scales ops (w2_scales L)
       (w2_scales_size_k cfg (tensor_shape (w2_scales L) ! Suc 0))
       (tensor_shape (w2_scales L) ! 2) (group_size cfg) = Inr s2"
    by blast
  have "process_weights_after_loading ops cfg L =
          Inr (L1\<lparr>w13_qweight := q13, w2_qweight := q2, w13_scales := s13, w2_scales := s2\<rparr>)"
    using dims
    by (simp add: process_weights_after_loading_def p shape_at_def Let_def fr q13 q2 s13 s2)
  then show ?thesis by blast
qed

subsection \<open>Override resolution\<close>







subsection \<open>Sorting the activation-order indices\<close>

lemma stable_argsort_sample:
  "stable_argsort [1, 0, 1, 0] = [1, 3, 0, 2]" "stable_argsort [0, 0, 1, 1] = [0, 1, 2, 3]"
  "stable_argsort [1, 1, 0, 0] = [2, 3, 0, 1]" "stable_argsort [0, 1, 0, 1] = [0, 2, 1, 3]"
  "stable_argsort [0, 0] = [0, 1]" "stable_argsort [1, 0] = [1, 0]"
  by (simp_all add: stable_argsort_def upt_rec)

lemma argsort_ties_descending_sample:
  "argsort_ties_descending [0, 0] = [1, 0]" "argsort_ties_descending [1, 0] = [1, 0]"
  by (simp_all add: argsort_ties_descending_def upt_rec)

text \<open>
  C2, as the claim states it, fails: the source calls \<^verbatim>\<open>torch.argsort\<close> without
  \<^verbatim>\<open>stable=True\<close>, so the order among equal group ids is not fixed. A sorting
  permutation that orders ties by descending position meets what the call promises, and
  with it the finalize step stores \<open>[1, 0]\<close> as the sort indices of the row
  \<open>[0, 0]\<close>, where the stable permutation is \<open>[0, 1]\<close>.
\<close>

theorem C2_counterexample:
  "is_argsort [0, 0] (argsort_ties_descending [0, 0]) \<and>
   is_argsort [1, 0] (argsort_ties_descending [1, 0]) \<and>
   process_act_order (sample_ops\<lparr>argsort := argsort_ties_descending\<rparr>) (sample_config 4 True)
       (sample_layer 2 [[0, 0], [1, 0]] [[0, 0], [1, 0]]) =
     Inr ((sample_layer 2 [[0, 0], [1, 0]] [[0, 0], [1, 0]])
            \<lparr>w13_g_idx := [[0, 0], [0, 1]], w2_g_idx := [[0, 0], [0, 1]],
             w13_g_idx_sort_indices := [[1, 0], [1, 0]],
             w2_g_idx_sort_indices := [[1, 0], [1, 0]]\<rparr>) \<and>
   map int (stable_argsort [0, 0]) = [0, 1]"
proof -
  have da: "desc_act (sample_config 4 True)"
    by (simp add: sample_config_def)
  have srt: "\<forall>row. is_argsort row (argsort (sample_ops\<lparr>argsort := argsort_ties_descending\<rparr>) row)"
    by (simp add: argsort_ties_descending_is_argsort)
  have len: "length (w13_g_idx (sample_layer 2 [[0, 0], [1, 0]] [[0, 0], [1, 0]])) =
             length (w2_g_idx (sample_layer 2 [[0, 0], [1, 0]] [[0, 0], [1, 0]]))"
    by (simp add: sample_layer_def)
  have run: "process_act_order (sample_ops\<lparr>argsort := argsort_ties_descending\<rparr>)
       (sample_config 4 True) (sample_layer 2 [[0, 0], [1, 0]] [[0, 0], [1, 0]]) =
     Inr ((sample_layer 2 [[0, 0], [1, 0]] [[0, 0], [1, 0]])
            \<lparr>w13_g_idx := [[0, 0], [0, 1]], w2_g_idx := [[0, 0], [0, 1]],
             w13_g_idx_sort_indices := [[1, 0], [1, 0]],
             w2_g_idx_sort_indices := [[1, 0], [1, 0]]\<rparr>)"
    using process_act_order_enabled_eq [OF da srt len]
    by (simp add: argsort_ties_descending_sample sample_layer_def)
  have st: "map int (stable_argsort [0, 0]) = [0, 1]"
    by (simp add: stable_argsort_sample)
  show ?thesis
    by (intro conjI argsort_ties_descending_is_argsort run st)
qed

text \<open>
  C2, amended. With activation-order enabled, and \<^verbatim>\<open>torch.argsort\<close> returning for
  every row a permutation of its positions that puts it in ascending order, the finalize
  step on a layer whose two index tensors have one row per expert stores, for every expert,
  that permutation as the sort indices and replaces the index row by the row gathered
  through it, which is sorted ascending. Gathering the sorted row through the inverse
  permutation restores the original row exactly, for every row, with or without repeated
  group ids. When the group ids of a row are unique the permutation is the stable sorting
  permutation; among equal group ids the order is whatever \<^verbatim>\<open>torch.argsort\<close>
  returns.
\<close>

theorem C2_act_order_sorting:
  assumes "desc_act cfg"
    and "\<forall>row. is_argsort row (argsort ops row)"
    and "length (w13_g_idx layer) = length (w2_g_idx layer)"
  shows
    "process_act_order ops cfg layer =
       Inr (layer\<lparr>w13_g_idx := map (\<lambda>row. map (\<lambda>i. row ! i) (argsort ops row)) (w13_g_idx layer),
                  w2_g_idx := map (\<lambda>row. map (\<lambda>i. row ! i) (argsort ops row)) (w2_g_idx layer),
                  w13_g_idx_sort_indices :=
                    map (\<lambda>row. map int (argsort ops row)) (w13_g_idx layer),
                  w2_g_idx_sort_indices :=
                    map (\<lambda>row. map int (argsort ops row)) (w2_g_idx layer)\<rparr>) \<and>
     (process_weights_after_loading ops cfg layer = Inr layer' \<longrightarrow>
        w13_g_idx_sort_indices layer' =
          map (\<lambda>row. map int (argsort ops row)) (w13_g_idx layer) \<and>
        w2_g_idx_sort_indices layer' =
          map (\<lambda>row. map int (argsort ops row)) (w2_g_idx layer) \<and>
        w13_g_idx layer' =
          map (\<lambda>row. map (\<lambda>i. row ! i) (argsort ops row)) (w13_g_idx layer) \<and>
        w2_g_idx layer' =
          map (\<lambda>row. map (\<lambda>i. row ! i) (argsort ops row)) (w2_g_idx layer)) \<and>
     (\<forall>row. sort (argsort ops row) = [0..<length row] \<and>
        sorted (map (\<lambda>i. row ! i) (argsort ops row)) \<and>
        map (\<lambda>j. map (\<lambda>i. row ! i) (argsort ops row) ! j)
          (inverse_permutation (argsort ops row)) = row \<and>
        (distinct row \<longrightarrow> argsort ops row = stable_argsort row))"
proof -
  note eq = process_act_order_enabled_eq [OF assms]
  have b: "process_weights_after_loading ops cfg layer = Inr layer' \<longrightarrow>
        w13_g_idx_sort_indices layer' =
          map (\<lambda>row. map int (argsort ops row)) (w13_g_idx layer) \<and>
        w2_g_idx_sort_indices layer' =
          map (\<lambda>row. map int (argsort ops row)) (w2_g_idx layer) \<and>
        w13_g_idx layer' =
          map (\<lambda>row. map (\<lambda>i. row ! i) (argsort ops row)) (w13_g_idx layer) \<and>
        w2_g_idx layer' =
          map (\<lambda>row. map (\<lambda>i. row ! i) (argsort ops row)) (w2_g_idx layer)"
  proof
    assume "process_weights_after_loading ops cfg layer = Inr layer'"
    from process_weights_after_loading_Inr [OF this] obtain l1 q13 q2 s13 s2 where
      p: "process_act_order ops cfg layer = Inr l1"
      and l: "layer' = l1\<lparr>w13_qweight := q13, w2_qweight := q2, w13_scales := s13,
                w2_scales := s2\<rparr>"
      by blast
    from p eq l show "w13_g_idx_sort_indices layer' =
          map (\<lambda>row. map int (argsort ops row)) (w13_g_idx layer) \<and>
        w2_g_idx_sort_indices layer' =
          map (\<lambda>row. map int (argsort ops row)) (w2_g_idx layer) \<and>
        w13_g_idx layer' =
          map (\<lambda>row. map (\<lambda>i. row ! i) (argsort ops row)) (w13_g_idx layer) \<and>
        w2_g_idx layer' =
          map (\<lambda>row. map (\<lambda>i. row ! i) (argsort ops row)) (w2_g_idx layer)"
      by auto
  qed
  have c: "\<forall>row. sort (argsort ops row) = [0..<length row] \<and>
        sorted (map (\<lambda>i. row ! i) (argsort ops row)) \<and>
        map (\<lambda>j. map (\<lambda>i. row ! i) (argsort ops row) ! j)
          (inverse_permutation (argsort ops row)) = row \<and>
        (distinct row \<longrightarrow> argsort ops row = stable_argsort row)"
  proof
    fix row
    from assms(2) have a: "is_argsort row (argsort ops row)" by blast
    then have "sort (argsort ops row) = [0..<length row]"
      and "sorted (map (\<lambda>i. row ! i) (argsort ops row))"
      by (simp_all add: is_argsort_def)
    moreover note inverse_permutation_restores [OF a]
    moreover have "distinct row \<longrightarrow> argsort ops row = stable_argsort row"
      using is_argsort_unique [OF a stable_argsort_is_argsort] by blast
    ultimately show "sort (argsort ops row) = [0..<length row] \<and>
        sorted (map (\<lambda>i. row ! i) (argsort ops row)) \<and>
        map (\<lambda>j. map (\<lambda>i. row ! i) (argsort ops row) ! j)
          (inverse_permutation (argsort ops row)) = row \<and>
        (distinct row \<longrightarrow> argsort ops row = stable_argsort row)"
      by blast
  qed
  show ?thesis by (intro conjI eq b c)
qed

theorem C2_act_order_sorting_witness:
  "desc_act (sample_config 4 True) \<and>
   process_act_order sample_ops (sample_config 4 True)
       (sample_layer 2 [[1, 0, 1, 0], [0, 0, 1, 1]] [[1, 1, 0, 0], [0, 1, 0, 1]]) =
     Inr ((sample_layer 2 [[1, 0, 1, 0], [0, 0, 1, 1]] [[1, 1, 0, 0], [0, 1, 0, 1]])
            \<lparr>w13_g_idx := [[0, 0, 1, 1], [0, 0, 1, 1]],
             w2_g_idx := [[0, 0, 1, 1], [0, 0, 1, 1]],
             w13_g_idx_sort_indices := [[1, 3, 0, 2], [0, 1, 2, 3]],
             w2_g_idx_sort_indices := [[2, 3, 0, 1], [0, 2, 1, 3]]\<rparr>) \<and>
   map (\<lambda>j. [0, 0, 1, 1] ! j) (inverse_permutation [1, 3, 0, 2]) = [1, 0, 1, 0 :: int]"
proof -
  have da: "desc_act (sample_config 4 True)"
    by (simp add: sample_config_def)
  have srt: "\<forall>row. is_argsort row (argsort sample_ops row)"
    by (simp add: sample_ops_def stable_argsort_is_argsort)
  have len: "length (w13_g_idx
        (sample_layer 2 [[1, 0, 1, 0], [0, 0, 1, 1]] [[1, 1, 0, 0], [0, 1, 0, 1]])) =
      length (w2_g_idx
        (sample_layer 2 [[1, 0, 1, 0], [0, 0, 1, 1]] [[1, 1, 0, 0], [0, 1, 0, 1]]))"
    by (simp add: sample_layer_def)
  have a: "argsort sample_ops = stable_argsort"
    by (simp add: sample_ops_def)
  have g: "w13_g_idx (sample_layer 2 [[1, 0, 1, 0], [0, 0, 1, 1]] [[1, 1, 0, 0], [0, 1, 0, 1]])
             = [[1, 0, 1, 0], [0, 0, 1, 1]]"
    "w2_g_idx (sample_layer 2 [[1, 0, 1, 0], [0, 0, 1, 1]] [[1, 1, 0, 0], [0, 1, 0, 1]])
             = [[1, 1, 0, 0], [0, 1, 0, 1]]"
    by (simp_all add: sample_layer_def)
  have inv: "map (\<lambda>j. [0, 0, 1, 1] ! j) (inverse_permutation [1, 3, 0, 2]) = [1, 0, 1, 0 :: int]"
    using C2_act_order_sorting [OF da srt len, THEN conjunct2, THEN conjunct2, THEN spec,
        of "[1, 0, 1, 0]"]
    by (simp add: a stable_argsort_sample)
  have run: "process_act_order sample_ops (sample_config 4 True)
       (sample_layer 2 [[1, 0, 1, 0], [0, 0, 1, 1]] [[1, 1, 0, 0], [0, 1, 0, 1]]) =
     Inr ((sample_layer 2 [[1, 0, 1, 0], [0, 0, 1, 1]] [[1, 1, 0, 0], [0, 1, 0, 1]])
            \<lparr>w13_g_idx := [[0, 0, 1, 1], [0, 0, 1, 1]],
             w2_g_idx := [[0, 0, 1, 1], [0, 0, 1, 1]],
             w13_g_idx_sort_indices := [[1, 3, 0, 2], [0, 1, 2, 3]],
             w2_g_idx_sort_indices := [[2, 3, 0, 1], [0, 2, 1, 3]]\<rparr>)"
    using C2_act_order_sorting [OF da srt len, THEN conjunct1]
    by (simp add: a g stable_argsort_sample)
  show ?thesis
    by (intro conjI da run inv)
qed

subsection \<open>Finalizing twice\<close>

text \<open>
  C9, as the claim states it, fails: the finalize step keeps no record of having run. On
  the sample layer, with repacking operations that accept their input, a second call on
  the result of the first returns a layer like any first call.
\<close>

theorem C9_counterexample:
  "bind_err
     (process_weights_after_loading sample_ops (sample_config 4 False)
        (sample_layer 2 [[1, 0], [0, 1]] [[0, 0], [1, 1]]))
     (process_weights_after_loading sample_ops (sample_config 4 False)) =
   Inr \<lparr>w13_qweight = \<lparr>tensor_shape = [2, 1, 16], tensor_data = [8, 16, 4]\<rparr>,
        w2_qweight = \<lparr>tensor_shape = [2, 1, 8], tensor_data = [8, 8, 4]\<rparr>,
        w13_scales = \<lparr>tensor_shape = [2, 2, 16], tensor_data = [8, 16, 4]\<rparr>,
        w2_scales = \<lparr>tensor_shape = [2, 2, 8], tensor_data = [8, 8, 4]\<rparr>,
        w13_g_idx = [[], []], w2_g_idx = [[], []],
        w13_g_idx_sort_indices = [[], []], w2_g_idx_sort_indices = [[], []],
        intermediate_size_per_partition = 8\<rparr>"
proof -
  have nd: "\<not> desc_act (sample_config 4 False)"
    by (simp add: sample_config_def)
  have first: "process_weights_after_loading sample_ops (sample_config 4 False)
        (sample_layer 2 [[1, 0], [0, 1]] [[0, 0], [1, 1]]) =
     Inr \<lparr>w13_qweight = \<lparr>tensor_shape = [2, 1, 16], tensor_data = [8, 16, 4]\<rparr>,
          w2_qweight = \<lparr>tensor_shape = [2, 1, 8], tensor_data = [8, 8, 4]\<rparr>,
          w13_scales = \<lparr>tensor_shape = [2, 2, 16], tensor_data = [8, 16, 4]\<rparr>,
          w2_scales = \<lparr>tensor_shape = [2, 2, 8], tensor_data = [8, 8, 4]\<rparr>,
          w13_g_idx = [[], []], w2_g_idx = [[], []],
          w13_g_idx_sort_indices = [[], []], w2_g_idx_sort_indices = [[], []],
          intermediate_size_per_partition = 8\<rparr>"
    unfolding process_weights_after_loading_def process_act_order_disabled [OF nd]
    by (simp add: sample_ops_def sample_config_def sample_layer_def shape_at_def
        w2_scales_size_k_def uint4b8_def)
  have second: "process_weights_after_loading sample_ops (sample_config 4 False)
       \<lparr>w13_qweight = \<lparr>tensor_shape = [2, 1, 16], tensor_data = [8, 16, 4]\<rparr>,
        w2_qweight = \<lparr>tensor_shape = [2, 1, 8], tensor_data = [8, 8, 4]\<rparr>,
        w13_scales = \<lparr>tensor_shape = [2, 2, 16], tensor_data = [8, 16, 4]\<rparr>,
        w2_scales = \<lparr>tensor_shape = [2, 2, 8], tensor_data = [8, 8, 4]\<rparr>,
        w13_g_idx = [[], []], w2_g_idx = [[], []],
        w13_g_idx_sort_indices = [[], []], w2_g_idx_sort_indices = [[], []],
        intermediate_size_per_partition = 8\<rparr> =
     Inr \<lparr>w13_qweight = \<lparr>tensor_shape = [2, 1, 16], tensor_data = [8, 16, 4]\<rparr>,
          w2_qweight = \<lparr>tensor_shape = [2, 1, 8], tensor_data = [8, 8, 4]\<rparr>,
          w13_scales = \<lparr>tensor_shape = [2, 2, 16], tensor_data = [8, 16, 4]\<rparr>,
          w2_scales = \<lparr>tensor_shape = [2, 2, 8], tensor_data = [8, 8, 4]\<rparr>,
          w13_g_idx = [[], []], w2_g_idx = [[], []],
          w13_g_idx_sort_indices = [[], []], w2_g_idx_sort_indices = [[], []],
          intermediate_size_per_partition = 8\<rparr>"
    unfolding process_weights_after_loading_def process_act_order_disabled [OF nd]
    by (simp add: sample_ops_def sample_config_def shape_at_def
        w2_scales_size_k_def uint4b8_def)
  show ?thesis
    by (simp add: first second)
qed

text \<open>
  C9, amended. The mixture-of-experts finalize step makes no check for an earlier call: on
  a layer whose two index tensors have one row per expert, whenever
  \<^verbatim>\<open>torch.argsort\<close> returns sorting permutations and the external repacking
  operations accept every three-dimensional tensor and return one, a second call on the
  result of a first call returns normally; it is not rejected.
\<close>

theorem C9_second_finalize_runs:
  assumes srt: "\<forall>row. is_argsort row (argsort ops row)"
    and repack: "\<forall>t idx k n b. 2 < length (tensor_shape t) \<longrightarrow>
                   (\<exists>t'. gptq_marlin_moe_repack ops t idx k n b = Inr t' \<and>
                         2 < length (tensor_shape t'))"
    and permute: "\<forall>t k n g. 2 < length (tensor_shape t) \<longrightarrow>
                   (\<exists>t'. marlin_moe_permute_scales ops t k n g = Inr t' \<and>
                         2 < length (tensor_shape t'))"
    and len: "length (w13_g_idx layer) = length (w2_g_idx layer)"
    and first: "process_weights_after_loading ops cfg layer = Inr l1"
  shows "\<exists>l2. process_weights_after_loading ops cfg l1 = Inr l2"
proof -
  from process_weights_after_loading_Inr [OF first] obtain l1a q13 q2 s13 s2 where
    pa: "process_act_order ops cfg layer = Inr l1a"
    and i13: "2 < length (tensor_shape (w13_qweight l1a))"
    and i2: "2 < length (tensor_shape (w2_qweight l1a))"
    and j13: "2 < length (tensor_shape (w13_scales l1a))"
    and j2: "2 < length (tensor_shape (w2_scales l1a))"
    and q13: "gptq_marlin_moe_repack ops (w13_qweight l1a) (w13_g_idx_sort_indices l1a)
       (tensor_shape (w13_qweight l1a) ! 1 * pack_factor cfg) (tensor_shape (w13_qweight l1a) ! 2)
       (size_bits (quant_type cfg)) = Inr q13"
    and q2: "gptq_marlin_moe_repack ops (w2_qweight l1a) (w2_g_idx_sort_indices l1a)
       (tensor_shape (w2_qweight l1a) ! 1 * pack_factor cfg) (tensor_shape (w2_qweight l1a) ! 2)
       (size_bits (quant_type cfg)) = Inr q2"
    and s13: "marlin_moe_permute_scales ops (w13_scales l1a) (intermediate_size_per_partition l1a)
       (tensor_shape (w13_scales l1a) ! 2) (group_size cfg) = Inr s13"
    and s2: "marlin_moe_permute_scales ops (w2_scales l1a)
       (w2_scales_size_k cfg (tensor_shape (w2_scales l1a) ! 1))
       (tensor_shape (w2_scales l1a) ! 2) (group_size cfg) = Inr s2"
    and l1: "l1 = l1a\<lparr>w13_qweight := q13, w2_qweight := q2, w13_scales := s13,
               w2_scales := s2\<rparr>"
    by blast
  have d13: "2 < length (tensor_shape q13)"
    using repack [rule_format, of "w13_qweight l1a" "w13_g_idx_sort_indices l1a"
        "tensor_shape (w13_qweight l1a) ! 1 * pack_factor cfg"
        "tensor_shape (w13_qweight l1a) ! 2" "size_bits (quant_type cfg)"] q13 i13
    by auto
  have d2: "2 < length (tensor_shape q2)"
    using repack [rule_format, of "w2_qweight l1a" "w2_g_idx_sort_indices l1a"
        "tensor_shape (w2_qweight l1a) ! 1 * pack_factor cfg"
        "tensor_shape (w2_qweight l1a) ! 2" "size_bits (quant_type cfg)"] q2 i2
    by auto
  have e13: "2 < length (tensor_shape s13)"
    using permute [rule_format, of "w13_scales l1a" "intermediate_size_per_partition l1a"
        "tensor_shape (w13_scales l1a) ! 2" "group_size cfg"] s13 j13
    by auto
  have e2: "2 < length (tensor_shape s2)"
    using permute [rule_format, of "w2_scales l1a"
        "w2_scales_size_k cfg (tensor_shape (w2_scales l1a) ! 1)"
        "tensor_shape (w2_scales l1a) ! 2" "group_size cfg"] s2 j2
    by auto
  have dims: "2 < length (tensor_shape (w13_qweight l1))"
    "2 < length (tensor_shape (w2_qweight l1))"
    "2 < length (tensor_shape (w13_scales l1))"
    "2 < length (tensor_shape (w2_scales l1))"
    using d13 d2 e13 e2 by (simp_all add: l1)
  have len1: "length (w13_g_idx l1) = length (w2_g_idx l1)"
  proof (cases "desc_act cfg")
    case True
    from process_act_order_enabled_eq [OF True srt len] pa l1 len show ?thesis
      by auto
  next
    case False
    from process_act_order_disabled [OF False, of ops layer] pa l1 show ?thesis
      by auto
  qed
  have "\<exists>l1b. process_act_order ops cfg l1 = Inr l1b"
  proof (cases "desc_act cfg")
    case True
    from process_act_order_enabled_eq [OF True srt len1] show ?thesis by blast
  next
    case False
    from process_act_order_disabled [OF False] show ?thesis by blast
  qed
  then obtain l1b where pb: "process_act_order ops cfg l1 = Inr l1b" by blast
  from repack have r': "\<forall>t idx k n b. 2 < length (tensor_shape t) \<longrightarrow>
      (\<exists>t'. gptq_marlin_moe_repack ops t idx k n b = Inr t')"
    by blast
  from permute have p': "\<forall>t k n g. 2 < length (tensor_shape t) \<longrightarrow>
      (\<exists>t'. marlin_moe_permute_scales ops t k n g = Inr t')"
    by blast
  show ?thesis
    by (rule process_weights_after_loading_total [OF pb dims r' p'])
qed

theorem C9_second_finalize_runs_witness:
  "\<exists>l1 l2.
     process_weights_after_loading sample_ops (sample_config 4 True)
       (sample_layer 2 [[1, 0], [0, 1]] [[0, 0], [1, 1]]) = Inr l1 \<and>
     process_weights_after_loading sample_ops (sample_config 4 True) l1 = Inr l2"
proof -
  have srt: "\<forall>row. is_argsort row (argsort sample_ops row)"
    by (simp add: sample_ops_def stable_argsort_is_argsort)
  have repack: "\<forall>t idx k n b. 2 < length (tensor_shape t) \<longrightarrow>
      (\<exists>t'. gptq_marlin_moe_repack sample_ops t idx k n b = Inr t' \<and>
            2 < length (tensor_shape t'))"
    by (simp add: sample_ops_def)
  have permute: "\<forall>t k n g. 2 < length (tensor_shape t) \<longrightarrow>
      (\<exists>t'. marlin_moe_permute_scales sample_ops t k n g = Inr t' \<and>
            2 < length (tensor_shape t'))"
    by (simp add: sample_ops_def)
  have len: "length (w13_g_idx (sample_layer 2 [[1, 0], [0, 1]] [[0, 0], [1, 1]])) =
             length (w2_g_idx (sample_layer 2 [[1, 0], [0, 1]] [[0, 0], [1, 1]]))"
    by (simp add: sample_layer_def)
  have da: "desc_act (sample_config 4 True)"
    by (simp add: sample_config_def)
  have dims: "2 < length (tensor_shape (w13_qweight
                (sample_layer 2 [[1, 0], [0, 1]] [[0, 0], [1, 1]])))"
    "2 < length (tensor_shape (w2_qweight (sample_layer 2 [[1, 0], [0, 1]] [[0, 0], [1, 1]])))"
    "2 < length (tensor_shape (w13_scales (sample_layer 2 [[1, 0], [0, 1]] [[0, 0], [1, 1]])))"
    "2 < length (tensor_shape (w2_scales (sample_layer 2 [[1, 0], [0, 1]] [[0, 0], [1, 1]])))"
    by (simp_all add: sample_layer_def)
  from repack have r': "\<forall>t idx k n b. 2 < length (tensor_shape t) \<longrightarrow>
      (\<exists>t'. gptq_marlin_moe_repack sample_ops t idx k n b = Inr t')"
    by blast
  from permute have p': "\<forall>t k n g. 2 < length (tensor_shape t) \<longrightarrow>
      (\<exists>t'. marlin_moe_permute_scales sample_ops t k n g = Inr t')"
    by blast
  from process_weights_after_loading_total
    [OF process_act_order_enabled_eq [OF da srt len] dims r' p']
  obtain l1 where first: "process_weights_after_loading sample_ops (sample_config 4 True)
       (sample_layer 2 [[1, 0], [0, 1]] [[0, 0], [1, 1]]) = Inr l1"
    by blast
  from C9_second_finalize_runs [OF srt repack permute len first] first
  show ?thesis by blast
qed

end
